theory Spec2Isabelle
  imports Complex_Main "HOL-Library.Multiset"
begin

unbundle bit_operations_syntax

section \<open>The search tree of uct/tree.c\<close>

subsection \<open>Data model\<close>

text \<open>
  \<^verbatim>\<open>coord_t\<close> is a plain C \<^verbatim>\<open>int\<close> in this version of the sources: tree.c
  compares coordinates with \<^verbatim>\<open>==\<close> and distributed.c indexes an array with them.
  The counters \<^verbatim>\<open>playouts\<close> and \<^verbatim>\<open>wins\<close> are C \<^verbatim>\<open>int\<close> as well (tree.c
  prints both with \<^verbatim>\<open>%d\<close> and casts \<^verbatim>\<open>wins\<close> to \<^verbatim>\<open>double\<close>). They are modelled
  by the mathematical integers: signed overflow is undefined behaviour in C and no
  execution that overflows is described here.

  The header uct/tree.h is not among the sources. \<^verbatim>\<open>struct move_stats\<close> is read off
  its uses in tree.c (\<^verbatim>\<open>playouts\<close>, \<^verbatim>\<open>wins\<close>) together with one derived quantity,
  the value that \<^verbatim>\<open>tree_update_node_value\<close> and \<^verbatim>\<open>tree_update_node_rvalue\<close>
  recompute. That value is a C floating point number; its type is left open as
  the type variable \<open>'v\<close>.
\<close>

type_synonym coord_t = int

record 'v move_stats =
  playouts :: int
  wins :: int
  mvalue :: 'v

text \<open>
  The fields of \<^verbatim>\<open>struct tree_node\<close> other than the three links \<^verbatim>\<open>parent\<close>,
  \<^verbatim>\<open>sibling\<close> and \<^verbatim>\<open>children\<close>. The links are the shape of the datatype below: the
  \<^verbatim>\<open>children\<close>/\<^verbatim>\<open>sibling\<close> chain of a node is its list of children, in chain order,
  and \<^verbatim>\<open>parent\<close> is the node that holds the list.
\<close>

record 'v node_data =
  hash :: int
  depth :: int
  coord :: coord_t
  u :: "'v move_stats"
  prior :: "'v move_stats"
  amaf :: "'v move_stats"
  pu :: "'v move_stats"
  pamaf :: "'v move_stats"
  hints :: int

datatype 'v tree_node = Node (data: "'v node_data") (children: "'v tree_node list")

datatype tree_error =
    Assert_pamaf_playouts
  | Assert_pu_playouts
  | Assert_prior
  | Assert_coord
  | Division_by_zero
  | Null_dereference

subsection \<open>Derived values\<close>

text \<open>
  Modelled from the spec: \<^verbatim>\<open>tree_update_node_value\<close> and
  \<^verbatim>\<open>tree_update_node_rvalue\<close> are inline functions of the absent uct/tree.h. The
  spec says of them only that merge and expansion "recompute the derived value".
  They are taken as parameters \<open>UV\<close> and \<open>RV\<close> that compute the new derived value of
  the \<^verbatim>\<open>u\<close> channel, respectively the \<^verbatim>\<open>amaf\<close> channel, from the node and the
  \<^verbatim>\<open>amaf_prior\<close> flag; nothing else of the node is written.
\<close>

definition tree_update_node_value ::
  "(bool \<Rightarrow> 'v node_data \<Rightarrow> 'v) \<Rightarrow> 'v node_data \<Rightarrow> bool \<Rightarrow> 'v node_data" where
  "tree_update_node_value UV n amaf_prior = n\<lparr>u := (u n)\<lparr>mvalue := UV amaf_prior n\<rparr>\<rparr>"

definition tree_update_node_rvalue ::
  "(bool \<Rightarrow> 'v node_data \<Rightarrow> 'v) \<Rightarrow> 'v node_data \<Rightarrow> bool \<Rightarrow> 'v node_data" where
  "tree_update_node_rvalue RV n amaf_prior = n\<lparr>amaf := (amaf n)\<lparr>mvalue := RV amaf_prior n\<rparr>\<rparr>"

subsection \<open>tree\_node\_merge\<close>

text \<open>
  The inner \<^verbatim>\<open>while (si2 && di->coord != si2->coord)\<close> of the merge: look for the
  first node with coordinate \<open>c\<close> in a sibling chain, and return the nodes before it,
  the node, and the chain after it.
\<close>

fun find_coord ::
  "coord_t \<Rightarrow> 'v tree_node list \<Rightarrow> ('v tree_node list \<times> 'v tree_node \<times> 'v tree_node list) option" where
  "find_coord c [] = None"
| "find_coord c (s # ss) =
     (if coord (data s) = c then Some ([], s, ss)
      else (case find_coord c ss of
              None \<Rightarrow> None
            | Some (pre, m, post) \<Rightarrow> Some (s # pre, m, post)))"

text \<open>
  The guard \<^verbatim>\<open>src->amaf.playouts - src->pamaf.playouts == 0 && src->u.playouts -
  src->pu.playouts == 0\<close> under the comment "Do not merge nodes that weren't touched
  at all".
\<close>

definition src_untouched :: "'v node_data \<Rightarrow> bool" where
  "src_untouched s =
     (playouts (amaf s) - playouts (pamaf s) = 0 \<and> playouts (u s) - playouts (pu s) = 0)"

text \<open>
  The statistics part at the end of \<^verbatim>\<open>tree_node_merge\<close>, after the children have
  been merged and the priors compared.
\<close>

definition merge_stats ::
  "(bool \<Rightarrow> 'v node_data \<Rightarrow> 'v) \<Rightarrow> (bool \<Rightarrow> 'v node_data \<Rightarrow> 'v) \<Rightarrow> bool \<Rightarrow>
   'v node_data \<Rightarrow> 'v node_data \<Rightarrow> 'v node_data" where
  "merge_stats UV RV amaf_prior d s =
     (let d1 = d\<lparr>amaf := (amaf d)\<lparr>playouts := playouts (amaf d) + playouts (amaf s),
                                   wins := wins (amaf d) + wins (amaf s)\<rparr>\<rparr>;
          d2 = (if playouts (amaf d1) \<noteq> 0 then tree_update_node_rvalue RV d1 amaf_prior else d1);
          d3 = d2\<lparr>u := (u d2)\<lparr>playouts := playouts (u d2) + playouts (u s),
                               wins := wins (u d2) + wins (u s)\<rparr>\<rparr>
      in (if playouts (u d3) \<noteq> 0 then tree_update_node_value UV d3 amaf_prior else d3))"

text \<open>
  \<^verbatim>\<open>tree_node_merge\<close> writes into \<^verbatim>\<open>dest\<close>; the model returns the new \<^verbatim>\<open>dest\<close> node,
  or the assertion that stopped the program. \<open>merge_children\<close> is the
  \<^verbatim>\<open>while (di && si)\<close> loop with the rechaining after it: its arguments are the
  chains from \<^verbatim>\<open>di\<close> and from \<^verbatim>\<open>si\<close> on, its result is the chain that \<^verbatim>\<open>*dref\<close>
  holds at the end. Nodes of \<^verbatim>\<open>src\<close> that are chained into \<^verbatim>\<open>dest\<close> are moved, and
  \<^verbatim>\<open>src\<close> is not read again afterwards.
\<close>

fun tree_node_merge ::
    "(bool \<Rightarrow> 'v node_data \<Rightarrow> 'v) \<Rightarrow> (bool \<Rightarrow> 'v node_data \<Rightarrow> 'v) \<Rightarrow> bool \<Rightarrow>
     'v tree_node \<Rightarrow> 'v tree_node \<Rightarrow> tree_error + 'v tree_node"
  and merge_children ::
    "(bool \<Rightarrow> 'v node_data \<Rightarrow> 'v) \<Rightarrow> (bool \<Rightarrow> 'v node_data \<Rightarrow> 'v) \<Rightarrow> bool \<Rightarrow>
     'v tree_node list \<Rightarrow> 'v tree_node list \<Rightarrow> tree_error + 'v tree_node list" where
  "tree_node_merge UV RV amaf_prior (Node d dcs) (Node s scs) =
     (if playouts (pamaf d) \<noteq> playouts (pamaf s) then Inl Assert_pamaf_playouts
      else if playouts (pu d) \<noteq> playouts (pu s) then Inl Assert_pu_playouts
      else if src_untouched s then Inr (Node d dcs)
      else
        (case merge_children UV RV amaf_prior dcs scs of
           Inl e \<Rightarrow> Inl e
         | Inr cs \<Rightarrow>
             (if \<not> (playouts (prior d) = playouts (prior s) \<and> wins (prior d) = wins (prior s))
              then Inl Assert_prior
              else Inr (Node (merge_stats UV RV amaf_prior (d\<lparr>hints := hints d OR hints s\<rparr>) s) cs))))"
| "merge_children UV RV amaf_prior [] ss = Inr ss"
| "merge_children UV RV amaf_prior (d # ds) [] = Inr (d # ds)"
| "merge_children UV RV amaf_prior (d # ds) (s # ss) =
     (if coord (data d) \<noteq> coord (data s) then
        (case find_coord (coord (data d)) ss of
           None \<Rightarrow>
             (case merge_children UV RV amaf_prior ds (s # ss) of
                Inl e \<Rightarrow> Inl e
              | Inr r \<Rightarrow> Inr (d # r))
         | Some (pre, s2, post) \<Rightarrow>
             (case tree_node_merge UV RV amaf_prior d s2 of
                Inl e \<Rightarrow> Inl e
              | Inr d' \<Rightarrow>
                  (case merge_children UV RV amaf_prior ds post of
                     Inl e \<Rightarrow> Inl e
                   | Inr r \<Rightarrow> Inr ((s # pre) @ d' # r))))
      else
        (case tree_node_merge UV RV amaf_prior d s of
           Inl e \<Rightarrow> Inl e
         | Inr d' \<Rightarrow>
             (case merge_children UV RV amaf_prior ds ss of
                Inl e \<Rightarrow> Inl e
              | Inr r \<Rightarrow> Inr (d' # r))))"


subsection \<open>Boards, colours and trees\<close>

text \<open>
  The headers board.h, stone.h and move.h are not among the sources. Of the stone
  colours only the names are needed here.
\<close>

datatype stone = S_NONE | S_BLACK | S_WHITE | S_OFFBOARD

text \<open>
  Modelled from the spec: \<^verbatim>\<open>stone_other\<close> is a helper of the absent stone.h,
  which \<^verbatim>\<open>tree_init\<close> and \<^verbatim>\<open>tree_promote_node\<close> apply to \<^verbatim>\<open>root_color\<close>; the spec
  has it "flip root\_color". Black and white are exchanged, the two other values
  are kept.
\<close>

fun stone_other :: "stone \<Rightarrow> stone" where
  "stone_other S_BLACK = S_WHITE"
| "stone_other S_WHITE = S_BLACK"
| "stone_other s = s"

datatype symmetry_type = SYM_FULL | SYM_DIAG_UP | SYM_DIAG_DOWN | SYM_HORIZ | SYM_VERT | SYM_NONE

text \<open>
  \<^verbatim>\<open>struct board_symmetry\<close> as tree.c reads it: the playground rectangle
  \<^verbatim>\<open>x1..x2\<close>, \<^verbatim>\<open>y1..y2\<close>, the flag \<^verbatim>\<open>d\<close> (the playground is folded along a diagonal)
  and the \<^verbatim>\<open>type\<close>. The fields carry the prefix \<open>sym_\<close>.
\<close>

record board_symmetry =
  sym_x1 :: int
  sym_x2 :: int
  sym_y1 :: int
  sym_y2 :: int
  sym_d :: int
  sym_type :: symmetry_type

text \<open>
  Everything that tree.c and distributed.c take from the board and move interface,
  as fields of the board it is applied to. The macros and functions behind the
  fields are declared in the absent headers, so each one is a parameter:
  \<^verbatim>\<open>board_size(b)\<close>, \<^verbatim>\<open>board_size2(b)\<close>, the constant \<^verbatim>\<open>pass\<close>, the coordinate algebra
  \<^verbatim>\<open>coord_x(c, b)\<close>, \<^verbatim>\<open>coord_y(c, b)\<close>, \<^verbatim>\<open>coord_xy_otf(x, y, b)\<close>, the points that
  \<^verbatim>\<open>foreach_point(b)\<close> visits, \<^verbatim>\<open>board_at(b, c)\<close>, \<^verbatim>\<open>b->hash\<close>, \<^verbatim>\<open>b->symmetry\<close>,
  \<^verbatim>\<open>board_is_valid_move\<close> (for a colour and a coordinate), \<^verbatim>\<open>board_stone_radar\<close>,
  \<^verbatim>\<open>board_symmetry_update\<close> and \<^verbatim>\<open>str2coord(str, board_size(b))\<close>.
\<close>

record board =
  board_size :: int
  board_size2 :: int
  pass :: coord_t
  coord_x :: "coord_t \<Rightarrow> int"
  coord_y :: "coord_t \<Rightarrow> int"
  coord_xy_otf :: "int \<Rightarrow> int \<Rightarrow> coord_t"
  foreach_point :: "coord_t list"
  board_at :: "coord_t \<Rightarrow> stone"
  board_hash :: int
  symmetry :: board_symmetry
  board_is_valid_move :: "stone \<Rightarrow> coord_t \<Rightarrow> bool"
  board_stone_radar :: "coord_t \<Rightarrow> int \<Rightarrow> bool"
  board_symmetry_update :: "board_symmetry \<Rightarrow> coord_t \<Rightarrow> board_symmetry"
  str2coord :: "string \<Rightarrow> coord_t"

definition is_pass :: "board \<Rightarrow> coord_t \<Rightarrow> bool" where
  "is_pass b c = (c = pass b)"

record 'v tree =
  tboard :: board
  root :: "'v tree_node"
  max_depth :: int
  root_color :: stone
  root_symmetry :: board_symmetry

subsection \<open>tree\_merge\<close>





fun map_nodes :: "('v node_data \<Rightarrow> 'v node_data) \<Rightarrow> 'v tree_node \<Rightarrow> 'v tree_node" where
  "map_nodes g (Node d cs) = Node (g d) (map (map_nodes g) cs)"

subsection \<open>tree\_normalize\<close>

text \<open>
  The quotient of C's \<^verbatim>\<open>/\<close> on \<^verbatim>\<open>int\<close> is truncated towards zero. Division by zero
  is undefined in C (the program is stopped by a trap); the model returns
  \<open>Division_by_zero\<close> there.
\<close>

definition c_div :: "int \<Rightarrow> int \<Rightarrow> int" where
  "c_div a b = (if (a < 0) = (b < 0) then \<bar>a\<bar> div \<bar>b\<bar> else - (\<bar>a\<bar> div \<bar>b\<bar>))"

text \<open>
  The six statements after the loop of \<^verbatim>\<open>tree_node_normalize\<close>: the macro
  \<^verbatim>\<open>normalize(s1, s2, t)\<close> is \<^verbatim>\<open>node->s2.t = node->s1.t + (node->s2.t - node->s1.t) /
  factor\<close>, and each \<^verbatim>\<open>memcpy\<close> copies a whole \<^verbatim>\<open>struct move_stats\<close>.
\<close>

definition normalize_data :: "int \<Rightarrow> 'v node_data \<Rightarrow> 'v node_data" where
  "normalize_data factor n =
     (let n1 = n\<lparr>amaf := (amaf n)\<lparr>playouts :=
                  playouts (pamaf n) + c_div (playouts (amaf n) - playouts (pamaf n)) factor\<rparr>\<rparr>;
          n2 = n1\<lparr>amaf := (amaf n1)\<lparr>wins :=
                  wins (pamaf n1) + c_div (wins (amaf n1) - wins (pamaf n1)) factor\<rparr>\<rparr>;
          n3 = n2\<lparr>pamaf := amaf n2\<rparr>;
          n4 = n3\<lparr>u := (u n3)\<lparr>playouts :=
                  playouts (pu n3) + c_div (playouts (u n3) - playouts (pu n3)) factor\<rparr>\<rparr>;
          n5 = n4\<lparr>u := (u n4)\<lparr>wins :=
                  wins (pu n4) + c_div (wins (u n4) - wins (pu n4)) factor\<rparr>\<rparr>
      in n5\<lparr>pu := u n5\<rparr>)"

fun tree_node_normalize :: "int \<Rightarrow> 'v tree_node \<Rightarrow> tree_error + 'v tree_node"
  and normalize_siblings :: "int \<Rightarrow> 'v tree_node list \<Rightarrow> tree_error + 'v tree_node list" where
  "tree_node_normalize factor (Node n cs) =
     (case normalize_siblings factor cs of
        Inl e \<Rightarrow> Inl e
      | Inr cs' \<Rightarrow>
          (if factor = 0 then Inl Division_by_zero
           else Inr (Node (normalize_data factor n) cs')))"
| "normalize_siblings factor [] = Inr []"
| "normalize_siblings factor (ni # rest) =
     (case tree_node_normalize factor ni of
        Inl e \<Rightarrow> Inl e
      | Inr ni' \<Rightarrow>
          (case normalize_siblings factor rest of
             Inl e \<Rightarrow> Inl e
           | Inr rest' \<Rightarrow> Inr (ni' # rest')))"

definition tree_normalize :: "'v tree \<Rightarrow> int \<Rightarrow> tree_error + 'v tree" where
  "tree_normalize t factor =
     (case tree_node_normalize factor (root t) of
        Inl e \<Rightarrow> Inl e
      | Inr r \<Rightarrow> Inr (t\<lparr>root := r\<rparr>))"

text \<open>
  The normalisation in the words of the specification, for one channel: every
  statistic becomes baseline + (current - baseline) / factor, and the baseline is
  then the new record.
\<close>

definition spec_normalized_stats :: "int \<Rightarrow> 'v move_stats \<Rightarrow> 'v move_stats \<Rightarrow> 'v move_stats" where
  "spec_normalized_stats factor base cur =
     cur\<lparr>playouts := playouts base + c_div (playouts cur - playouts base) factor,
         wins := wins base + c_div (wins cur - wins base) factor\<rparr>"

definition spec_normalized :: "int \<Rightarrow> 'v node_data \<Rightarrow> 'v node_data" where
  "spec_normalized factor n =
     n\<lparr>u := spec_normalized_stats factor (pu n) (u n),
       pu := spec_normalized_stats factor (pu n) (u n),
       amaf := spec_normalized_stats factor (pamaf n) (amaf n),
       pamaf := spec_normalized_stats factor (pamaf n) (amaf n)\<rparr>"


subsection \<open>Symmetry fix-up and promotion\<close>

definition flip_coord :: "board \<Rightarrow> coord_t \<Rightarrow> bool \<Rightarrow> bool \<Rightarrow> bool \<Rightarrow> coord_t" where
  "flip_coord b c flip_horiz flip_vert flip_diag =
     (let x = coord_x b c; y = coord_y b c;
          xd = (if flip_diag then y else x); yd = (if flip_diag then x else y);
          xh = (if flip_horiz then board_size b - 1 - xd else xd);
          yv = (if flip_vert then board_size b - 1 - yd else yd)
      in coord_xy_otf b xh yv)"

fun tree_fix_node_symmetry ::
  "board \<Rightarrow> bool \<Rightarrow> bool \<Rightarrow> bool \<Rightarrow> 'v tree_node \<Rightarrow> 'v tree_node" where
  "tree_fix_node_symmetry b flip_horiz flip_vert flip_diag (Node n cs) =
     Node (if \<not> is_pass b (coord n)
           then n\<lparr>coord := flip_coord b (coord n) flip_horiz flip_vert flip_diag\<rparr> else n)
          (map (tree_fix_node_symmetry b flip_horiz flip_vert flip_diag) cs)"

text \<open>
  The three flags that \<^verbatim>\<open>tree_fix_symmetry\<close> computes for the played coordinate.
  In \<^verbatim>\<open>dir ^ flip_horiz ^ flip_vert ? board_size(b) - 1 - cx : cx\<close> the exclusive or
  of the three truth values is the condition.
\<close>

definition symmetry_flips :: "board_symmetry \<Rightarrow> board \<Rightarrow> coord_t \<Rightarrow> bool \<times> bool \<times> bool" where
  "symmetry_flips s b c =
     (let cx = coord_x b c; cy = coord_y b c;
          flip_horiz = (cx < sym_x1 s \<or> cx > sym_x2 s);
          flip_vert = (cy < sym_y1 s \<or> cy > sym_y2 s);
          flip_diag =
            (sym_d s \<noteq> 0 \<and>
             (let dir = (sym_type s = SYM_DIAG_DOWN);
                  x = (if (dir \<noteq> flip_horiz) \<noteq> flip_vert then board_size b - 1 - cx else cx)
              in (if flip_vert then x < cy else x > cy)))
      in (flip_horiz, flip_vert, flip_diag))"

definition tree_fix_symmetry :: "'v tree \<Rightarrow> board \<Rightarrow> coord_t \<Rightarrow> 'v tree" where
  "tree_fix_symmetry t b c =
     (if is_pass b c then t
      else (case symmetry_flips (root_symmetry t) b c of
              (flip_horiz, flip_vert, flip_diag) \<Rightarrow>
                (if flip_horiz \<or> flip_vert \<or> flip_diag
                 then t\<lparr>root := tree_fix_node_symmetry b flip_horiz flip_vert flip_diag (root t)\<rparr>
                 else t)))"

text \<open>
  \<^verbatim>\<open>tree_promote_node\<close> is called on a child of the root, which its assertion
  checks. Unlinking the node and freeing the rest of the old root leave the
  subtree of the node as the tree.
\<close>

definition tree_promote_node :: "'v tree \<Rightarrow> 'v tree_node \<Rightarrow> 'v tree" where
  "tree_promote_node t node =
     t\<lparr>root := node,
       root_color := stone_other (root_color t),
       root_symmetry := board_symmetry_update (tboard t) (root_symmetry t) (coord (data node))\<rparr>"

definition tree_promote_at :: "'v tree \<Rightarrow> board \<Rightarrow> coord_t \<Rightarrow> bool \<times> 'v tree" where
  "tree_promote_at t b c =
     (let t1 = tree_fix_symmetry t b c
      in (case find (\<lambda>ni. coord (data ni) = c) (children (root t1)) of
            Some ni \<Rightarrow> (True, tree_promote_node t1 ni)
          | None \<Rightarrow> (False, t1)))"

subsection \<open>Node creation and expansion\<close>

definition zero_stats :: "('v::zero) move_stats" where
  "zero_stats = \<lparr>playouts = 0, wins = 0, mvalue = 0\<rparr>"

text \<open>A node as \<^verbatim>\<open>calloc\<close> returns it.\<close>

definition zero_data :: "('v::zero) node_data" where
  "zero_data = \<lparr>hash = 0, depth = 0, coord = 0, u = zero_stats, prior = zero_stats,
                amaf = zero_stats, pu = zero_stats, pamaf = zero_stats, hints = 0\<rparr>"

text \<open>
  \<^verbatim>\<open>tree_init_node\<close> numbers the nodes with a counter that is static in the
  function. The counter is passed in and returned; the tree is returned with its
  \<^verbatim>\<open>max_depth\<close> raised. Running out of memory is not modelled.
\<close>

definition tree_init_node ::
  "('v::zero) tree \<Rightarrow> int \<Rightarrow> coord_t \<Rightarrow> int \<Rightarrow> 'v tree_node \<times> 'v tree \<times> int" where
  "tree_init_node t ctr c dep =
     (Node (zero_data\<lparr>coord := c, depth := dep, hash := ctr\<rparr>) [],
      (if dep > max_depth t then t\<lparr>max_depth := dep\<rparr> else t),
      ctr + 1)"

definition tree_init :: "board \<Rightarrow> stone \<Rightarrow> int \<Rightarrow> ('v::zero) tree \<times> int" where
  "tree_init b color ctr =
     (let t0 = \<lparr>tboard = b, root = Node zero_data [], max_depth = 0, root_color = S_NONE,
                root_symmetry = \<lparr>sym_x1 = 0, sym_x2 = 0, sym_y1 = 0, sym_y2 = 0, sym_d = 0,
                                 sym_type = SYM_FULL\<rparr>\<rparr>
      in (case tree_init_node t0 ctr (pass b) 0 of
            (n, t1, ctr1) \<Rightarrow>
              (t1\<lparr>root := n, root_symmetry := symmetry b, root_color := stone_other color\<rparr>, ctr1)))"

text \<open>
  The array \<^verbatim>\<open>map.consider\<close> after the first loop of \<^verbatim>\<open>tree_expand_node\<close>: cleared
  by \<^verbatim>\<open>memset\<close>, set for \<^verbatim>\<open>pass\<close>, and set for each point of the board that is empty,
  passes the radar filter and is a valid move of the colour.
\<close>

definition map_consider :: "board \<Rightarrow> stone \<Rightarrow> int \<Rightarrow> coord_t \<Rightarrow> bool" where
  "map_consider b color radar c =
     (c = pass b \<or>
      (c \<in> set (foreach_point b) \<and> board_at b c = S_NONE \<and>
       \<not> (board_hash b \<noteq> 0 \<and> radar \<noteq> 0 \<and> \<not> board_stone_radar b c radar) \<and>
       board_is_valid_move b color c))"

text \<open>
  \<^verbatim>\<open>ni->prior = map.prior[c]\<close> and the update of the derived value after it. The
  array \<^verbatim>\<open>map.prior\<close> is what the absent \<^verbatim>\<open>uct_prior\<close> leaves; it is the parameter
  \<open>map_prior\<close> of the expansion.
\<close>

definition set_prior ::
  "(bool \<Rightarrow> 'v node_data \<Rightarrow> 'v) \<Rightarrow> (bool \<Rightarrow> 'v node_data \<Rightarrow> 'v) \<Rightarrow> bool \<Rightarrow>
   'v move_stats \<Rightarrow> 'v tree_node \<Rightarrow> 'v tree_node" where
  "set_prior UV RV amaf_prior pr ni =
     (let n1 = (data ni)\<lparr>prior := pr\<rparr>
      in Node (if playouts pr \<noteq> 0
               then (if amaf_prior then tree_update_node_rvalue RV n1 amaf_prior
                     else tree_update_node_value UV n1 amaf_prior)
               else n1) (children ni))"

text \<open>
  The two nested \<^verbatim>\<open>for\<close> loops visit the playground with \<^verbatim>\<open>i\<close> (the x coordinate)
  in the outer loop and \<^verbatim>\<open>j\<close> (the y coordinate) in the inner one.
\<close>

definition playground :: "board_symmetry \<Rightarrow> (int \<times> int) list" where
  "playground s = concat (map (\<lambda>i. map (\<lambda>j. (i, j)) [sym_y1 s..sym_y2 s]) [sym_x1 s..sym_x2 s])"

definition diag_dropped :: "board \<Rightarrow> int \<Rightarrow> int \<Rightarrow> bool" where
  "diag_dropped b i j =
     (sym_d (symmetry b) \<noteq> 0 \<and>
      (if sym_type (symmetry b) = SYM_DIAG_DOWN then board_size b - 1 - i else i) > j)"

text \<open>
  The body of the loops over the remaining points \<open>ps\<close>: the result is the chain
  of new siblings that follows \<^verbatim>\<open>ni\<close>, in the order of creation.
\<close>

fun expand_loop ::
  "(bool \<Rightarrow> 'v node_data \<Rightarrow> 'v) \<Rightarrow> (bool \<Rightarrow> 'v node_data \<Rightarrow> 'v) \<Rightarrow> bool \<Rightarrow>
   (coord_t \<Rightarrow> 'v move_stats) \<Rightarrow> (coord_t \<Rightarrow> bool) \<Rightarrow> board \<Rightarrow> 'v node_data \<Rightarrow>
   ('v::zero) tree \<Rightarrow> int \<Rightarrow> (int \<times> int) list \<Rightarrow>
   tree_error + ('v tree_node list \<times> 'v tree \<times> int)" where
  "expand_loop UV RV amaf_prior map_prior consider b node t ctr [] = Inr ([], t, ctr)"
| "expand_loop UV RV amaf_prior map_prior consider b node t ctr ((i, j) # ps) =
     (if diag_dropped b i j then expand_loop UV RV amaf_prior map_prior consider b node t ctr ps
      else
        (let c = coord_xy_otf (tboard t) i j
         in if \<not> consider c
            then expand_loop UV RV amaf_prior map_prior consider b node t ctr ps
            else if c = coord node then Inl Assert_coord
            else
              (case tree_init_node t ctr c (depth node + 1) of
                 (nj, t1, ctr1) \<Rightarrow>
                   (case expand_loop UV RV amaf_prior map_prior consider b node t1 ctr1 ps of
                      Inl e \<Rightarrow> Inl e
                    | Inr (njs, t2, ctr2) \<Rightarrow>
                        Inr (set_prior UV RV amaf_prior (map_prior c) nj # njs, t2, ctr2)))))"

definition tree_expand_node ::
  "(bool \<Rightarrow> 'v node_data \<Rightarrow> 'v) \<Rightarrow> (bool \<Rightarrow> 'v node_data \<Rightarrow> 'v) \<Rightarrow> bool \<Rightarrow>
   (coord_t \<Rightarrow> 'v move_stats) \<Rightarrow> ('v::zero) tree \<Rightarrow> int \<Rightarrow> 'v tree_node \<Rightarrow> board \<Rightarrow> stone \<Rightarrow> int \<Rightarrow>
   tree_error + ('v tree_node \<times> 'v tree \<times> int)" where
  "tree_expand_node UV RV amaf_prior map_prior t ctr node b color radar =
     (case tree_init_node t ctr (pass b) (depth (data node) + 1) of
        (ni, t1, ctr1) \<Rightarrow>
          (case expand_loop UV RV amaf_prior map_prior (map_consider b color radar) b (data node)
                  t1 ctr1 (playground (symmetry b)) of
             Inl e \<Rightarrow> Inl e
           | Inr (njs, t2, ctr2) \<Rightarrow>
               Inr (Node (data node) (set_prior UV RV amaf_prior (map_prior (pass b)) ni # njs),
                    t2, ctr2)))"


subsection \<open>The opening book: tree\_save and tree\_load\<close>

text \<open>
  The book file is a sequence of items: a single byte written by \<^verbatim>\<open>fputc\<close>, or
  the block that \<^verbatim>\<open>fwrite\<close> copies out of a node, the part of
  \<^verbatim>\<open>struct tree_node\<close> from the field \<^verbatim>\<open>depth\<close> on. The three links stand before
  \<^verbatim>\<open>depth\<close> (\<^verbatim>\<open>tree_node_load\<close> sets \<^verbatim>\<open>ni->parent\<close> before it reads the block into
  \<^verbatim>\<open>ni\<close>, and tests \<^verbatim>\<open>node->children\<close> after it). Whether \<^verbatim>\<open>hash\<close> does is fixed
  by the absent header; it is a diagnostic number, and a loaded node keeps the one
  it had. A block is carried as the \<open>node_data\<close> it was copied from and is read
  back into the same machine's layout, so that \<^verbatim>\<open>fread\<close> returns the fields that
  \<^verbatim>\<open>fwrite\<close> wrote.
\<close>

datatype 'v book_item = Byte int | Block "'v node_data"

fun tree_node_save :: "int \<Rightarrow> 'v tree_node \<Rightarrow> 'v book_item list" where
  "tree_node_save thres (Node n cs) =
     Byte 1 # Block n #
     (if playouts (u n) \<ge> thres then concat (map (tree_node_save thres) cs) else []) @
     [Byte 0]"

definition tree_save :: "'v tree \<Rightarrow> int \<Rightarrow> 'v book_item list" where
  "tree_save t thres = tree_node_save thres (root t) @ [Byte 0]"

definition MAX_PLAYOUTS :: int where
  "MAX_PLAYOUTS = 10000000"

text \<open>The conversion of a \<^verbatim>\<open>double\<close> to \<^verbatim>\<open>int\<close> drops the fraction.\<close>

definition c_trunc :: "rat \<Rightarrow> int" where
  "c_trunc x = (if x \<ge> 0 then \<lfloor>x\<rfloor> else \<lceil>x\<rceil>)"

text \<open>
  \<^verbatim>\<open>wins -= ((double) wins / playouts) * over\<close> on an \<^verbatim>\<open>int wins\<close>: the operands are
  converted to \<^verbatim>\<open>double\<close>, the quotient, the product and the difference are
  computed in \<^verbatim>\<open>double\<close>, and the difference is converted back. The rounding of
  \<^verbatim>\<open>double\<close> arithmetic is the parameter \<open>rnd\<close>, applied to the exact result of every
  conversion and operation.
\<close>

definition clamp_wins :: "(rat \<Rightarrow> rat) \<Rightarrow> int \<Rightarrow> int \<Rightarrow> int \<Rightarrow> int" where
  "clamp_wins rnd w p over =
     c_trunc (rnd (rnd (of_int w) -
                   rnd (rnd (rnd (of_int w) / rnd (of_int p)) * rnd (of_int over))))"

definition clamp_stats :: "(rat \<Rightarrow> rat) \<Rightarrow> 'v move_stats \<Rightarrow> 'v move_stats" where
  "clamp_stats rnd st =
     (if playouts st > MAX_PLAYOUTS
      then st\<lparr>wins := clamp_wins rnd (wins st) (playouts st) (playouts st - MAX_PLAYOUTS),
              playouts := MAX_PLAYOUTS\<rparr>
      else st)"

text \<open>
  What \<^verbatim>\<open>tree_node_load\<close> does to a node between the \<^verbatim>\<open>fread\<close> and the loop over
  the children: both channels are kept in scale, then the baselines are set by the
  two \<^verbatim>\<open>memcpy\<close>.
\<close>

definition load_fix :: "(rat \<Rightarrow> rat) \<Rightarrow> 'v node_data \<Rightarrow> 'v node_data" where
  "load_fix rnd n =
     (let n1 = n\<lparr>u := clamp_stats rnd (u n)\<rparr>;
          n2 = n1\<lparr>amaf := clamp_stats rnd (amaf n1)\<rparr>;
          n3 = n2\<lparr>pamaf := amaf n2\<rparr>
      in n3\<lparr>pu := u n3\<rparr>)"

text \<open>
  \<^verbatim>\<open>tree_node_load\<close> reads the block of \<open>node\<close> and then, \<open>load_siblings\<close>, one child
  for each non-zero byte up to the zero byte that ends the chain. The first
  argument bounds the number of nested calls; \<open>tree_load\<close> starts with the number
  of items of the file, and every call consumes an item before it calls again, so
  the bound is never what ends a run. The outcomes: \<open>None\<close> when the file ends or
  an item of the other kind stands where one is read (no file that \<^verbatim>\<open>tree_save\<close>
  wrote), \<open>Some (Inl Null_dereference)\<close> when a child is read for a node that has
  children already (\<^verbatim>\<open>ni_prev\<close> is \<^verbatim>\<open>NULL\<close> in \<^verbatim>\<open>ni_prev->sibling = ni\<close>), and otherwise
  the node, the counter \<^verbatim>\<open>*num\<close> and the rest of the file. In \<open>load_siblings\<close>,
  \<open>old\<close> is \<^verbatim>\<open>node->children\<close> on entry and \<open>acc\<close> the chain of the children read so
  far.
\<close>

fun tree_node_load ::
    "nat \<Rightarrow> (rat \<Rightarrow> rat) \<Rightarrow> ('v::zero) tree_node \<Rightarrow> int \<Rightarrow> 'v book_item list \<Rightarrow>
     (tree_error + ('v tree_node \<times> int \<times> 'v book_item list)) option"
  and load_siblings ::
    "nat \<Rightarrow> (rat \<Rightarrow> rat) \<Rightarrow> 'v tree_node list \<Rightarrow> 'v tree_node list \<Rightarrow> int \<Rightarrow> 'v book_item list \<Rightarrow>
     (tree_error + ('v tree_node list \<times> int \<times> 'v book_item list)) option" where
  "tree_node_load 0 rnd node num f = None"
| "tree_node_load (Suc k) rnd node num f =
     (case f of
        Block r # rest \<Rightarrow>
          (case load_siblings k rnd (children node) [] (num + 1) rest of
             None \<Rightarrow> None
           | Some (Inl e) \<Rightarrow> Some (Inl e)
           | Some (Inr (cs, num', rest')) \<Rightarrow>
               Some (Inr (Node (load_fix rnd (r\<lparr>hash := hash (data node)\<rparr>)) cs, num', rest')))
      | _ \<Rightarrow> None)"
| "load_siblings 0 rnd old acc num f = None"
| "load_siblings (Suc k) rnd old acc num f =
     (case f of
        Byte b # rest \<Rightarrow>
          (if b = 0 then Some (Inr (if acc = [] then old else acc, num, rest))
           else if old \<noteq> [] then Some (Inl Null_dereference)
           else
             (case tree_node_load k rnd (Node zero_data []) num rest of
                None \<Rightarrow> None
              | Some (Inl e) \<Rightarrow> Some (Inl e)
              | Some (Inr (ni, num', rest')) \<Rightarrow> load_siblings k rnd old (acc @ [ni]) num' rest'))
      | _ \<Rightarrow> None)"

text \<open>
  \<^verbatim>\<open>tree_load\<close> on the content of the book file, \<open>None\<close> when \<^verbatim>\<open>fopen\<close> fails: the
  tree is then left as it is.
\<close>

definition tree_load ::
  "(rat \<Rightarrow> rat) \<Rightarrow> ('v::zero) tree \<Rightarrow> 'v book_item list option \<Rightarrow> (tree_error + 'v tree) option" where
  "tree_load rnd t file =
     (case file of
        None \<Rightarrow> Some (Inr t)
      | Some f \<Rightarrow>
          (case f of
             Byte b # rest \<Rightarrow>
               (if b = 0 then Some (Inr t)
                else (case tree_node_load (length f) rnd (root t) 0 rest of
                        None \<Rightarrow> None
                      | Some (Inl e) \<Rightarrow> Some (Inl e)
                      | Some (Inr (r, num, rest')) \<Rightarrow> Some (Inr (t\<lparr>root := r\<rparr>))))
           | _ \<Rightarrow> None))"

text \<open>
  The tree that a book written with threshold \<open>thres\<close> holds: the children of a
  node are in the file only when the node has at least \<open>thres\<close> playouts.
\<close>

fun serialized :: "int \<Rightarrow> 'v tree_node \<Rightarrow> 'v tree_node" where
  "serialized thres (Node n cs) =
     Node n (if playouts (u n) \<ge> thres then map (serialized thres) cs else [])"

text \<open>
  A saved tree as it is expected back: every node fixed by \<open>load_fix\<close>, the root
  with the \<^verbatim>\<open>hash\<close> \<open>h\<close> of the root it is loaded into, the other nodes with the
  \<^verbatim>\<open>hash\<close> 0 of \<^verbatim>\<open>calloc\<close>.
\<close>

fun as_loaded :: "(rat \<Rightarrow> rat) \<Rightarrow> int \<Rightarrow> 'v tree_node \<Rightarrow> 'v tree_node" where
  "as_loaded rnd h (Node n cs) = Node (load_fix rnd (n\<lparr>hash := h\<rparr>)) (map (as_loaded rnd 0) cs)"


section \<open>The master of distributed/distributed.c\<close>

subsection \<open>Strings and the conversions of sscanf\<close>

text \<open>
  A C string is the list of its characters before the terminating zero; a pointer
  into it is the suffix that starts there, and \<^verbatim>\<open>NULL\<close> is \<open>None\<close>. \<^verbatim>\<open>isspace\<close> and
  \<^verbatim>\<open>isdigit\<close> are those of the C locale.
\<close>

definition isspace :: "char \<Rightarrow> bool" where
  "isspace c = (c = CHR 0x20 \<or> (9 \<le> (of_char c :: nat) \<and> (of_char c :: nat) \<le> 13))"

definition isdigit :: "char \<Rightarrow> bool" where
  "isdigit c = (48 \<le> (of_char c :: nat) \<and> (of_char c :: nat) \<le> 57)"

definition strchr :: "string \<Rightarrow> char \<Rightarrow> string option" where
  "strchr s c = (if c \<in> set s then Some (dropWhile (\<lambda>x. x \<noteq> c) s) else None)"

definition digits_value :: "string \<Rightarrow> int" where
  "digits_value ds = foldl (\<lambda>a c. 10 * a + (of_char c - 48)) 0 ds"

text \<open>
  The conversion \<^verbatim>\<open>%d\<close>: white space is skipped, then an optional sign and a
  non-empty run of decimal digits are read. The result is the number and the
  input after it, or \<open>None\<close> when the conversion fails. The number is not reduced to
  the range of \<^verbatim>\<open>int\<close> (the behaviour of \<^verbatim>\<open>sscanf\<close> is undefined for a number outside
  of it).
\<close>

definition scan_d :: "string \<Rightarrow> (int \<times> string) option" where
  "scan_d s =
     (let s1 = dropWhile isspace s;
          neg = (s1 \<noteq> [] \<and> hd s1 = CHR ''-'');
          s2 = (if s1 \<noteq> [] \<and> (hd s1 = CHR ''-'' \<or> hd s1 = CHR ''+'') then tl s1 else s1);
          ds = takeWhile isdigit s2
      in if ds = [] then None
         else Some ((if neg then - digits_value ds else digits_value ds), dropWhile isdigit s2))"

text \<open>
  The conversion \<^verbatim>\<open>%63s\<close>: white space is skipped, then at most 63 characters
  that are not white space are read, at least one.
\<close>

definition scan_s63 :: "string \<Rightarrow> (string \<times> string) option" where
  "scan_s63 s =
     (let s1 = dropWhile isspace s;
          w = take 63 (takeWhile (\<lambda>c. \<not> isspace c) s1)
      in if w = [] then None else Some (w, drop (length w) s1))"

text \<open>
  \<^verbatim>\<open>sscanf(r, "=%d %d %d %d %d", &id, &o, &p, &t, &k) == 5\<close>: the first character
  has to be \<^verbatim>\<open>=\<close>; the blanks of the format skip white space, which \<^verbatim>\<open>%d\<close> skips
  anyway.
\<close>

definition sscanf_header :: "string \<Rightarrow> (int \<times> int \<times> int \<times> int \<times> int) option" where
  "sscanf_header r =
     (case r of
        [] \<Rightarrow> None
      | c # r0 \<Rightarrow>
          (if c \<noteq> CHR ''='' then None
           else
             (case scan_d r0 of None \<Rightarrow> None | Some (gid, r1) \<Rightarrow>
             (case scan_d r1 of None \<Rightarrow> None | Some (own, r2) \<Rightarrow>
             (case scan_d r2 of None \<Rightarrow> None | Some (p, r3) \<Rightarrow>
             (case scan_d r3 of None \<Rightarrow> None | Some (t, r4) \<Rightarrow>
             (case scan_d r4 of None \<Rightarrow> None | Some (k, r5) \<Rightarrow>
                Some (gid, own, p, t, k))))))))"

text \<open>
  Floating point numbers stay abstract. The conversion \<^verbatim>\<open>%f\<close> of the C library
  and the arithmetic of \<^verbatim>\<open>stats_add_result\<close> are the fields of a parameter:
  \<open>scan_f\<close> converts at the start of the input and returns the number and the input
  after it; \<open>add_value\<close> gives the new value of a record from its old value, its new
  number of playouts, and the value and the playouts added; \<open>f_zero\<close> is the number
  whose bytes are all zero.
\<close>

record 'f float_ops =
  scan_f :: "string \<Rightarrow> ('f \<times> string) option"
  add_value :: "'f \<Rightarrow> int \<Rightarrow> 'f \<Rightarrow> int \<Rightarrow> 'f"
  f_zero :: 'f

text \<open>
  \<^verbatim>\<open>sscanf(r, "%63s %d %f %d %f", move, &s.u.playouts, &s.u.value,
  &s.amaf.playouts, &s.amaf.value) == 5\<close>.
\<close>

definition sscanf_move ::
  "'f float_ops \<Rightarrow> string \<Rightarrow> (string \<times> int \<times> 'f \<times> int \<times> 'f) option" where
  "sscanf_move F r =
     (case scan_s63 r of None \<Rightarrow> None | Some (move, r1) \<Rightarrow>
     (case scan_d r1 of None \<Rightarrow> None | Some (up, r2) \<Rightarrow>
     (case scan_f F r2 of None \<Rightarrow> None | Some (uv, r3) \<Rightarrow>
     (case scan_d r3 of None \<Rightarrow> None | Some (ap, r4) \<Rightarrow>
     (case scan_f F r4 of None \<Rightarrow> None | Some (av, r5) \<Rightarrow>
        Some (move, up, uv, ap, av))))))"

subsection \<open>select\_best\_move\<close>

text \<open>
  In distributed.c \<^verbatim>\<open>struct move_stats\<close> is the record of stats.h with the fields
  \<^verbatim>\<open>playouts\<close> and \<^verbatim>\<open>value\<close>, and \<^verbatim>\<open>struct move_stats2\<close> is a pair \<^verbatim>\<open>u\<close>, \<^verbatim>\<open>amaf\<close>
  of them. The field names carry the prefix \<open>r_\<close> here, to keep them apart from
  those of the tree.
\<close>

record 'f reply_stats =
  r_playouts :: int
  r_value :: 'f

record 'f move_stats2 =
  r_u :: "'f reply_stats"
  r_amaf :: "'f reply_stats"

text \<open>
  Modelled from the spec: \<^verbatim>\<open>stats_add_result\<close> is an inline function of the absent
  stats.h. "The coordinator sums across workers": the playouts are added, and
  the value is combined by the parameter \<open>add_value\<close>.
\<close>

definition stats_add_result :: "'f float_ops \<Rightarrow> 'f reply_stats \<Rightarrow> 'f \<Rightarrow> int \<Rightarrow> 'f reply_stats" where
  "stats_add_result F st result n =
     \<lparr>r_playouts = r_playouts st + n,
      r_value = add_value F (r_value st) (r_playouts st + n) result n\<rparr>"

text \<open>
  The variables of \<^verbatim>\<open>select_best_move\<close>. The array \<^verbatim>\<open>stats\<close> is a function of the
  coordinate; the C array has the entries from \<^verbatim>\<open>-2\<close> (resign and pass) up to
  \<^verbatim>\<open>board_size2(b) - 1\<close>, and \<^verbatim>\<open>str2coord\<close> is taken to return a coordinate among
  them.
\<close>

record 'f select_state =
  stats :: "coord_t \<Rightarrow> 'f move_stats2"
  best_move :: coord_t
  best_playouts :: int
  played :: int
  total_playouts :: int
  total_threads :: int
  keep :: int

text \<open>
  The lines that the inner \<^verbatim>\<open>while\<close> loop converts, in order. \<open>r\<close> is the pointer
  \<^verbatim>\<open>r\<close> before the test of the loop: \<^verbatim>\<open>NULL\<close> or at a newline; \<^verbatim>\<open>++r\<close> steps over
  the newline, and \<^verbatim>\<open>r = strchr(r, '\n')\<close> searches the next one from there.
\<close>

function reply_moves ::
  "'f float_ops \<Rightarrow> string option \<Rightarrow> (string \<times> int \<times> 'f \<times> int \<times> 'f) list" where
  "reply_moves F r =
     (case r of
        None \<Rightarrow> []
      | Some s \<Rightarrow>
          (case sscanf_move F (tl s) of
             None \<Rightarrow> []
           | Some m \<Rightarrow> m # reply_moves F (strchr (tl s) CHR 0x0A)))"
  by pat_completeness auto
termination
proof (relation "measure (\<lambda>(F, r). case r of None \<Rightarrow> 0 | Some s \<Rightarrow> Suc (length s))")
  show "wf (measure (\<lambda>(F, r). case r of None \<Rightarrow> 0 | Some s \<Rightarrow> Suc (length s)))"
    by simp
next
  fix F :: "'f float_ops" and r :: "string option" and s :: string
    and m :: "string \<times> int \<times> 'f \<times> int \<times> 'f"
  assume "r = Some s"
  have "length (dropWhile (\<lambda>x. x \<noteq> CHR 0x0A) (tl s)) \<le> length (tl s)"
    by (rule length_dropWhile_le)
  moreover have "CHR 0x0A \<in> set (tl s) \<Longrightarrow> length (tl s) < length s"
    by (cases s) auto
  ultimately show "((F, strchr (tl s) CHR 0x0A), (F, r))
      \<in> measure (\<lambda>(F, r). case r of None \<Rightarrow> 0 | Some s \<Rightarrow> Suc (length s))"
    using \<open>r = Some s\<close> by (auto simp: strchr_def)
qed

declare reply_moves.simps [simp del]

text \<open>The body of the inner loop for one converted line.\<close>

definition add_move ::
  "'f float_ops \<Rightarrow> board \<Rightarrow> 'f select_state \<Rightarrow> (string \<times> int \<times> 'f \<times> int \<times> 'f) \<Rightarrow> 'f select_state" where
  "add_move F b st m =
     (case m of (move, up, uv, ap, av) \<Rightarrow>
        (let c = str2coord b move;
             old = stats st c;
             new = \<lparr>r_u = stats_add_result F (r_u old) uv up,
                    r_amaf = stats_add_result F (r_amaf old) av ap\<rparr>;
             st1 = st\<lparr>stats := (stats st)(c := new)\<rparr>
         in if r_playouts (r_u new) > best_playouts st1
            then st1\<lparr>best_playouts := r_playouts (r_u new), best_move := c\<rparr>
            else st1))"

text \<open>The body of the outer loop for one reply.\<close>

definition add_reply :: "'f float_ops \<Rightarrow> board \<Rightarrow> 'f select_state \<Rightarrow> string \<Rightarrow> 'f select_state" where
  "add_reply F b st r =
     (case sscanf_header r of
        None \<Rightarrow> st
      | Some (gid, own, p, t, k) \<Rightarrow>
          foldl (add_move F b)
            (st\<lparr>played := played st + own, total_playouts := total_playouts st + p,
                total_threads := total_threads st + t, keep := keep st + k\<rparr>)
            (reply_moves F (strchr r CHR 0x0A)))"

record 'f selection =
  sel_move :: coord_t
  sel_stats :: "coord_t \<Rightarrow> 'f move_stats2"
  sel_played :: int
  sel_total_playouts :: int
  sel_total_threads :: int
  sel_keep_looking :: bool

datatype master_error = Assert_reply_count | No_reply

text \<open>
  \<^verbatim>\<open>select_best_move\<close> on the replies \<^verbatim>\<open>gtp_replies[0 .. reply_count - 1]\<close>. The
  result holds the returned move, the array \<^verbatim>\<open>stats\<close> and the four output
  parameters.
\<close>

definition select_best_move ::
  "'f float_ops \<Rightarrow> board \<Rightarrow> string list \<Rightarrow> master_error + 'f selection" where
  "select_best_move F b gtp_replies =
     (if \<not> length gtp_replies > 0 then Inl Assert_reply_count
      else
        (let zero = \<lparr>r_playouts = 0, r_value = f_zero F\<rparr>;
             st0 = \<lparr>stats = (\<lambda>c. \<lparr>r_u = zero, r_amaf = zero\<rparr>), best_move = pass b,
                    best_playouts = - 1, played = 0, total_playouts = 0, total_threads = 0,
                    keep = 0\<rparr>;
             st = foldl (add_reply F b) st0 gtp_replies
         in Inr \<lparr>sel_move = best_move st, sel_stats = stats st, sel_played = played st,
                 sel_total_playouts = total_playouts st, sel_total_threads = total_threads st,
                 sel_keep_looking = (keep st > int (length gtp_replies) div 2)\<rparr>))"

subsection \<open>distributed\_dead\_group\_list\<close>

definition tolower :: "char \<Rightarrow> char" where
  "tolower c = (if 65 \<le> (of_char c :: nat) \<and> (of_char c :: nat) \<le> 90
                then char_of ((of_char c :: nat) + 32) else c)"

text \<open>
  \<^verbatim>\<open>strcasecmp\<close>: the difference of the first pair of characters that differ after
  conversion to lower case, the end of a string counting as zero.
\<close>

fun strcasecmp :: "string \<Rightarrow> string \<Rightarrow> int" where
  "strcasecmp [] [] = 0"
| "strcasecmp [] (y # ys) = - int (of_char (tolower y))"
| "strcasecmp (x # xs) [] = int (of_char (tolower x))"
| "strcasecmp (x # xs) (y # ys) =
     (if tolower x = tolower y then strcasecmp xs ys
      else int (of_char (tolower x)) - int (of_char (tolower y)))"

definition scmp :: "string \<Rightarrow> string \<Rightarrow> int" where
  "scmp p1 p2 = strcasecmp p1 p2"

text \<open>
  \<^verbatim>\<open>qsort\<close> belongs to the C library and is a parameter \<open>qs\<close> of the function below.
  What C guarantees of it: the result is a rearrangement of the array that is in
  order for the comparison. The order among elements that compare equal is not
  specified.
\<close>

definition qsort_result :: "string list \<Rightarrow> string list \<Rightarrow> bool" where
  "qsort_result xs ys = (mset ys = mset xs \<and> sorted_wrt (\<lambda>a b. scmp a b \<le> 0) ys)"

text \<open>A sort that keeps the order of equal elements, by insertion.\<close>

fun scmp_insert :: "string \<Rightarrow> string list \<Rightarrow> string list" where
  "scmp_insert x [] = [x]"
| "scmp_insert x (y # ys) = (if scmp x y \<le> 0 then x # y # ys else y # scmp_insert x ys)"

definition stable_qsort :: "string list \<Rightarrow> string list" where
  "stable_qsort xs = foldr scmp_insert xs []"

text \<open>
  The loop \<^verbatim>\<open>for (reply = 1; reply < reply_count; reply++)\<close> over the sorted array:
  \<open>xs\<close> are the entries from index \<open>reply\<close> on and \<open>prev\<close> is the entry before them.
\<close>

fun popular_loop :: "string list \<Rightarrow> nat \<Rightarrow> string \<Rightarrow> nat \<Rightarrow> nat \<Rightarrow> nat \<Rightarrow> nat" where
  "popular_loop [] reply prev cnt best_count best_reply = best_reply"
| "popular_loop (x # xs) reply prev cnt best_count best_reply =
     (let cnt' = (if x = prev then cnt + 1 else 1)
      in if cnt' > best_count
         then popular_loop xs (reply + 1) x cnt' cnt' reply
         else popular_loop xs (reply + 1) x cnt' best_count best_reply)"

text \<open>
  Modelled from the spec: \<^verbatim>\<open>mq_add\<close> is an inline function of the absent mq.h;
  "the winning reply's list of coordinates is taken", so the coordinate is put
  at the end of the queue.
\<close>

definition mq_add :: "coord_t list \<Rightarrow> coord_t \<Rightarrow> coord_t list" where
  "mq_add mq c = mq @ [c]"

text \<open>
  The loop "Pick the first move of each line as group": \<open>dead\<close> is the pointer
  before the test \<^verbatim>\<open>dead && *++dead != '\n'\<close>. \<^verbatim>\<open>str2coord\<close> is given the text from
  the pointer on.
\<close>

function group_loop :: "board \<Rightarrow> string option \<Rightarrow> coord_t list \<Rightarrow> coord_t list" where
  "group_loop b dead mq =
     (case dead of
        None \<Rightarrow> mq
      | Some s \<Rightarrow>
          (if tl s \<noteq> [] \<and> hd (tl s) = CHR 0x0A then mq
           else group_loop b (strchr (tl s) CHR 0x0A) (mq_add mq (str2coord b (tl s)))))"
  by pat_completeness auto
termination
proof (relation "measure (\<lambda>(b, r, mq). case r of None \<Rightarrow> 0 | Some s \<Rightarrow> Suc (length s))")
  show "wf (measure (\<lambda>(b, r, mq :: coord_t list). case r of None \<Rightarrow> 0 | Some s \<Rightarrow> Suc (length s)))"
    by simp
next
  fix b :: board and dead :: "string option" and mq :: "coord_t list" and s :: string
  assume "dead = Some s"
  have "length (dropWhile (\<lambda>x. x \<noteq> CHR 0x0A) (tl s)) \<le> length (tl s)"
    by (rule length_dropWhile_le)
  moreover have "CHR 0x0A \<in> set (tl s) \<Longrightarrow> length (tl s) < length s"
    by (cases s) auto
  ultimately show "((b, strchr (tl s) CHR 0x0A, mq_add mq (str2coord b (tl s))), (b, dead, mq))
      \<in> measure (\<lambda>(b, r, mq). case r of None \<Rightarrow> 0 | Some s \<Rightarrow> Suc (length s))"
    using \<open>dead = Some s\<close> by (auto simp: strchr_def)
qed

declare group_loop.simps [simp del]

text \<open>
  \<^verbatim>\<open>distributed_dead_group_list\<close> on the replies that \<^verbatim>\<open>get_replies\<close> collected;
  the result is the queue \<^verbatim>\<open>mq\<close> at the end. Without a reply, \<^verbatim>\<open>gtp_replies[0]\<close> is
  not a reply of this command: \<open>No_reply\<close>.
\<close>

definition most_popular :: "string list \<Rightarrow> nat" where
  "most_popular arr = popular_loop (tl arr) 1 (hd arr) 1 1 0"

definition distributed_dead_group_list ::
  "(string list \<Rightarrow> string list) \<Rightarrow> board \<Rightarrow> string list \<Rightarrow> coord_t list \<Rightarrow>
   master_error + coord_t list" where
  "distributed_dead_group_list qs b gtp_replies mq =
     (if gtp_replies = [] then Inl No_reply
      else
        (let arr = qs gtp_replies;
             best_reply = most_popular arr;
             dead = arr ! best_reply
         in Inr (group_loop b (strchr dead CHR 0x20) mq)))"

section \<open>Notions used in the properties\<close>

text \<open>
  The rewrite of a coordinate that \<open>tree_fix_symmetry\<close> applies to the nodes of a
  tree for the played coordinate \<open>c\<close>.
\<close>

definition fix_coord :: "'v tree \<Rightarrow> board \<Rightarrow> coord_t \<Rightarrow> coord_t \<Rightarrow> coord_t" where
  "fix_coord t b c x =
     (if is_pass b c then x
      else (case symmetry_flips (root_symmetry t) b c of
              (flip_horiz, flip_vert, flip_diag) \<Rightarrow>
                (if (flip_horiz \<or> flip_vert \<or> flip_diag) \<and> \<not> is_pass b x
                 then flip_coord b x flip_horiz flip_vert flip_diag else x)))"

text \<open>
  The raster sequence of a board: the coordinates of the points of the
  playground that the diagonal test keeps, in the order of the two loops of
  \<open>tree_expand_node\<close>. It depends on the board of the tree (for \<open>coord_xy_otf\<close>)
  and on the board \<open>b\<close> of the call, and on nothing else.
\<close>

definition raster_coords :: "board \<Rightarrow> board \<Rightarrow> coord_t list" where
  "raster_coords tb b =
     map (\<lambda>(i, j). coord_xy_otf tb i j)
       (filter (\<lambda>(i, j). \<not> diag_dropped b i j) (playground (symmetry b)))"

text \<open>The order of the loops on the points: \<open>i\<close> first, then \<open>j\<close>.\<close>

definition raster_less :: "int \<times> int \<Rightarrow> int \<times> int \<Rightarrow> bool" where
  "raster_less p q = (fst p < fst q \<or> (fst p = fst q \<and> snd p < snd q))"

text \<open>The coordinates along the sibling list of the children of a node.\<close>

definition child_coords :: "'v tree_node \<Rightarrow> coord_t list" where
  "child_coords n = map (\<lambda>x. coord (data x)) (children n)"

text \<open>
  The number of collected replies that vote to continue: those with a header
  whose last number, the vote, is 1.
\<close>

definition continue_votes :: "string list \<Rightarrow> nat" where
  "continue_votes rs =
     length (filter (\<lambda>r. case sscanf_header r of
                            Some (gid, own, p, t, k) \<Rightarrow> k = 1 | None \<Rightarrow> False) rs)"

text \<open>The sum of one number of the header over the replies whose header converts.\<close>

definition header_sum ::
  "(int \<times> int \<times> int \<times> int \<times> int \<Rightarrow> int) \<Rightarrow> string list \<Rightarrow> int" where
  "header_sum g rs = sum_list (map (\<lambda>r. case sscanf_header r of Some h \<Rightarrow> g h | None \<Rightarrow> 0) rs)"








section \<open>Example values\<close>

text \<open>
  A square board with the coordinates of Pachi's move.h: a border of one point
  around the board, \<open>x + y * board_size\<close> for the point \<open>(x, y)\<close>, and \<open>-1\<close> for
  pass. \<open>ex_str2coord\<close> reads a letter (without \<open>i\<close>) and a row number.
\<close>

definition ex_str2coord :: "int \<Rightarrow> string \<Rightarrow> coord_t" where
  "ex_str2coord n s =
     (if map tolower (take 4 s) = ''pass'' then - 1
      else if map tolower (take 6 s) = ''resign'' then - 2
      else (case s of
              [] \<Rightarrow> - 1
            | c # rest \<Rightarrow>
                (let xc = int (of_char (tolower c));
                     row = (case scan_d rest of Some (k, _) \<Rightarrow> k | None \<Rightarrow> 0)
                 in (xc - 97 - (if xc > 105 then 1 else 0) + 1) + (n - row - 1) * n)))"

definition ex_board :: "int \<Rightarrow> board" where
  "ex_board n =
     \<lparr>board_size = n, board_size2 = n * n, pass = - 1,
      coord_x = (\<lambda>c. c mod n), coord_y = (\<lambda>c. c div n),
      coord_xy_otf = (\<lambda>x y. x + y * n),
      foreach_point = [0..n * n - 1],
      board_at = (\<lambda>c. if 1 \<le> c mod n \<and> c mod n \<le> n - 2 \<and> 1 \<le> c div n \<and> c div n \<le> n - 2
                       then S_NONE else S_OFFBOARD),
      board_hash = 0,
      symmetry = \<lparr>sym_x1 = 1, sym_x2 = n - 2, sym_y1 = 1, sym_y2 = n - 2, sym_d = 0,
                  sym_type = SYM_NONE\<rparr>,
      board_is_valid_move = (\<lambda>color c. True),
      board_stone_radar = (\<lambda>c r. True),
      board_symmetry_update = (\<lambda>s c. s),
      str2coord = ex_str2coord n\<rparr>"

definition ex_stats :: "int \<Rightarrow> int \<Rightarrow> int move_stats" where
  "ex_stats p w = \<lparr>playouts = p, wins = w, mvalue = 0\<rparr>"

definition ex_data :: "coord_t \<Rightarrow> int \<Rightarrow> int move_stats \<Rightarrow> int move_stats \<Rightarrow> int node_data" where
  "ex_data c h us pus =
     \<lparr>hash = 0, depth = 0, coord = c, u = us, prior = ex_stats 0 0, amaf = ex_stats 0 0,
      pu = pus, pamaf = ex_stats 0 0, hints = h\<rparr>"

definition ex_UV :: "bool \<Rightarrow> int node_data \<Rightarrow> int" where
  "ex_UV ap n = 0"

definition ex_tree :: "int tree_node \<Rightarrow> int tree" where
  "ex_tree r = \<lparr>tboard = ex_board 5, root = r, max_depth = 1, root_color = S_WHITE,
                root_symmetry = \<lparr>sym_x1 = 1, sym_x2 = 2, sym_y1 = 1, sym_y2 = 2, sym_d = 1,
                                 sym_type = SYM_FULL\<rparr>\<rparr>"

definition ex_dest_child :: "int tree_node" where
  "ex_dest_child = Node (ex_data 6 0 (ex_stats 4 2) (ex_stats 4 2)) []"

definition ex_src_child :: "int tree_node" where
  "ex_src_child = Node (ex_data 6 0 (ex_stats 6 3) (ex_stats 4 2)) []"

definition ex_dest_node :: "int tree_node" where
  "ex_dest_node = Node (ex_data (- 1) 0 (ex_stats 10 5) (ex_stats 10 5)) [ex_dest_child]"

definition ex_src_node :: "int tree_node" where
  "ex_src_node = Node (ex_data (- 1) 0 (ex_stats 15 8) (ex_stats 10 5)) [ex_src_child]"

definition ex_busy_dest :: "int tree_node" where
  "ex_busy_dest = Node (ex_data (- 1) 0 (ex_stats 12 6) (ex_stats 10 5)) []"

definition ex_idle_src :: "int tree_node" where
  "ex_idle_src = Node (ex_data (- 1) 1 (ex_stats 10 5) (ex_stats 10 5)) [ex_src_child]"

lemmas ex_defs = ex_dest_node_def ex_src_node_def ex_dest_child_def ex_src_child_def
  ex_busy_dest_def ex_idle_src_def ex_data_def ex_stats_def ex_UV_def ex_tree_def

definition ex_promote_tree :: "int tree" where
  "ex_promote_tree =
     ex_tree (Node (ex_data (- 1) 0 (ex_stats 7 3) (ex_stats 0 0))
                [Node (ex_data (- 1) 0 (ex_stats 1 0) (ex_stats 0 0)) [],
                 Node (ex_data 11 0 (ex_stats 4 2) (ex_stats 0 0)) [],
                 Node (ex_data 12 0 (ex_stats 2 1) (ex_stats 0 0)) []])"

text \<open>A board whose coordinates grow along the columns: \<open>x * n + y\<close> for \<open>(x, y)\<close>.\<close>

definition ex_column_board :: "int \<Rightarrow> board" where
  "ex_column_board n = (ex_board n)\<lparr>coord_x := (\<lambda>c. c div n), coord_y := (\<lambda>c. c mod n),
                                     coord_xy_otf := (\<lambda>x y. x * n + y)\<rparr>"

definition ex_leaf :: "int tree_node" where
  "ex_leaf = Node (ex_data (- 1) 0 (ex_stats 0 0) (ex_stats 0 0)) []"

definition ex_prior :: "coord_t \<Rightarrow> int move_stats" where
  "ex_prior c = ex_stats 0 0"

definition ex_column_tree :: "int tree" where
  "ex_column_tree = (ex_tree ex_leaf)\<lparr>tboard := ex_column_board 5\<rparr>"

text \<open>
  A conversion \<open>%f\<close> for the examples: white space, an optional sign, digits and
  an optional point with digits, at least one digit in all (the notation of the
  \<^verbatim>\<open>%.7f\<close> that the master itself prints). The number is kept as the text that
  was read.
\<close>

definition ex_scan_f :: "string \<Rightarrow> (string \<times> string) option" where
  "ex_scan_f s =
     (let s1 = dropWhile isspace s;
          sg = (if s1 \<noteq> [] \<and> (hd s1 = CHR ''-'' \<or> hd s1 = CHR ''+'') then [hd s1] else []);
          s2 = drop (length sg) s1;
          ip = takeWhile isdigit s2;
          s3 = dropWhile isdigit s2;
          pt = (s3 \<noteq> [] \<and> hd s3 = CHR ''.'');
          fp = (if pt then takeWhile isdigit (tl s3) else []);
          s4 = (if pt then dropWhile isdigit (tl s3) else s3)
      in if ip = [] \<and> fp = [] then None
         else Some (sg @ ip @ (if pt then CHR ''.'' # fp else []), s4))"

definition ex_float_ops :: "string float_ops" where
  "ex_float_ops = \<lparr>scan_f = ex_scan_f, add_value = (\<lambda>old total result n. result), f_zero = ''0''\<rparr>"

definition ex_reply :: string where
  "ex_reply = ''=7 100 500 4 1\<newline>C3 50 0.6 10 0.55\<newline>D4 80 0.4 5 0.3\<newline>\<newline>''"

definition ex_reply_stop :: string where
  "ex_reply_stop = ''=7 10 20 1 0\<newline>\<newline>''"

definition ex_reply_go :: string where
  "ex_reply_go = ''=7 5 7 2 1\<newline>\<newline>''"



text \<open>Two replies whose vote is not 0 or 1.\<close>

definition ex_reply_vote2 :: string where
  "ex_reply_vote2 = ''=7 5 7 2 2\<newline>\<newline>''"

definition ex_reply_minus :: string where
  "ex_reply_minus = ''=7 5 7 2 -1\<newline>\<newline>''"

text \<open>
  A node with more raw playouts than the ceiling: \<open>2 ^ 24\<close> playouts and one
  win. Every number that the scaling computes for it is a quotient of an integer
  below \<open>2 ^ 53\<close> by a power of two, so \<^verbatim>\<open>double\<close> arithmetic is exact on it and
  \<open>rnd\<close> is the identity there.
\<close>

definition ex_big_tree :: "int tree" where
  "ex_big_tree = ex_tree (Node (ex_data (- 1) 0 (ex_stats 16777216 1) (ex_stats 0 0)) [])"

definition ex_fresh_tree :: "int tree" where
  "ex_fresh_tree = fst (tree_init (ex_board 5) S_BLACK 1000000)"

definition ex_book_tree :: "int tree" where
  "ex_book_tree =
     ex_tree (Node (ex_data (- 1) 0 (ex_stats 7 3) (ex_stats 0 0))
                [Node (ex_data 6 0 (ex_stats 5 3) (ex_stats 0 0))
                   [Node (ex_data 7 0 (ex_stats 1 0) (ex_stats 0 0)) []],
                 Node (ex_data 11 0 (ex_stats 2 0) (ex_stats 0 0))
                   [Node (ex_data 12 0 (ex_stats 1 0) (ex_stats 0 0)) []]])"

text \<open>
  Seven replies to \<^verbatim>\<open>final_status_list dead\<close> in the order of their arrival:
  three name the group \<open>A1\<close>, two name it in lower case, two name \<open>B2\<close>.
\<close>

definition ex_dead_A1 :: string where "ex_dead_A1 = ''=1 A1\<newline>\<newline>''"
definition ex_dead_a1 :: string where "ex_dead_a1 = ''=1 a1\<newline>\<newline>''"
definition ex_dead_B2 :: string where "ex_dead_B2 = ''=1 B2\<newline>\<newline>''"

definition ex_dead_replies :: "string list" where
  "ex_dead_replies =
     [ex_dead_A1, ex_dead_a1, ex_dead_A1, ex_dead_a1, ex_dead_A1, ex_dead_B2, ex_dead_B2]"

section \<open>Properties\<close>

lemma merge_stats_fields:
  "playouts (u (merge_stats UV RV ap d s)) = playouts (u d) + playouts (u s)"
  "wins (u (merge_stats UV RV ap d s)) = wins (u d) + wins (u s)"
  "playouts (amaf (merge_stats UV RV ap d s)) = playouts (amaf d) + playouts (amaf s)"
  "wins (amaf (merge_stats UV RV ap d s)) = wins (amaf d) + wins (amaf s)"
  "hints (merge_stats UV RV ap d s) = hints d"
  "coord (merge_stats UV RV ap d s) = coord d"
  "prior (merge_stats UV RV ap d s) = prior d"
  "pu (merge_stats UV RV ap d s) = pu d"
  "pamaf (merge_stats UV RV ap d s) = pamaf d"
  by (simp_all add: merge_stats_def Let_def tree_update_node_value_def tree_update_node_rvalue_def)







lemma ex_merge_value:
  "tree_node_merge ex_UV ex_UV False ex_dest_node ex_src_node =
     Inr (Node (ex_data (- 1) 0 (ex_stats 25 13) (ex_stats 10 5))
            [Node (ex_data 6 0 (ex_stats 10 5) (ex_stats 4 2)) []])"
  by (simp add: ex_defs src_untouched_def merge_stats_def tree_update_node_value_def
      tree_update_node_rvalue_def Let_def)

lemma ex_child_merge_value:
  "tree_node_merge ex_UV ex_UV False ex_dest_child ex_src_child =
     Inr (Node (ex_data 6 0 (ex_stats 10 5) (ex_stats 4 2)) [])"
  by (simp add: ex_defs src_untouched_def merge_stats_def tree_update_node_value_def
      tree_update_node_rvalue_def Let_def)





text \<open>
  C7, as the code has it. With the two baseline assertions passed, a matched
  pair is skipped (the destination node is returned as it was) if and only if
  the source node alone has no playouts beyond its baseline in either channel;
  the deltas of the destination are not looked at. When the pair is not skipped
  and the merge returns, the hints are or-ed, the child chains are merged and
  the statistics of the source are added.
\<close>

theorem tree_node_merge_skips_iff_src_untouched:
  assumes "playouts (pamaf d) = playouts (pamaf s)" and "playouts (pu d) = playouts (pu s)"
  shows "(if playouts (amaf s) = playouts (pamaf s) \<and> playouts (u s) = playouts (pu s)
          then tree_node_merge UV RV ap (Node d dcs) (Node s scs) = Inr (Node d dcs)
          else (\<forall>r. tree_node_merge UV RV ap (Node d dcs) (Node s scs) = Inr r \<longrightarrow>
                  hints (data r) = hints d OR hints s \<and>
                  merge_children UV RV ap dcs scs = Inr (children r) \<and>
                  playouts (u (data r)) = playouts (u d) + playouts (u s) \<and>
                  wins (u (data r)) = wins (u d) + wins (u s) \<and>
                  playouts (amaf (data r)) = playouts (amaf d) + playouts (amaf s) \<and>
                  wins (amaf (data r)) = wins (amaf d) + wins (amaf s)))"
  using assms
  by (auto simp: src_untouched_def merge_stats_fields split: sum.splits if_splits)

theorem tree_node_merge_skips_iff_src_untouched_witness:
  "playouts (pamaf (data ex_dest_node)) = playouts (pamaf (data ex_src_node)) \<and>
   playouts (pu (data ex_dest_node)) = playouts (pu (data ex_src_node)) \<and>
   playouts (u (data ex_src_node)) \<noteq> playouts (pu (data ex_src_node)) \<and>
   (\<exists>r. tree_node_merge ex_UV ex_UV False ex_dest_node ex_src_node = Inr r \<and>
        hints (data r) = 0 \<and> playouts (u (data r)) = 25 \<and> wins (u (data r)) = 13 \<and>
        merge_children ex_UV ex_UV False [ex_dest_child] [ex_src_child] = Inr (children r))"
proof -
  have eqs: "playouts (pamaf (ex_data (- 1) 0 (ex_stats 10 5) (ex_stats 10 5))) =
      playouts (pamaf (ex_data (- 1) 0 (ex_stats 15 8) (ex_stats 10 5)))"
    "playouts (pu (ex_data (- 1) 0 (ex_stats 10 5) (ex_stats 10 5))) =
      playouts (pu (ex_data (- 1) 0 (ex_stats 15 8) (ex_stats 10 5)))"
    by (simp_all add: ex_data_def ex_stats_def)
  have touched: "\<not> (playouts (amaf (ex_data (- 1) 0 (ex_stats 15 8) (ex_stats 10 5))) =
        playouts (pamaf (ex_data (- 1) 0 (ex_stats 15 8) (ex_stats 10 5))) \<and>
      playouts (u (ex_data (- 1) 0 (ex_stats 15 8) (ex_stats 10 5))) =
        playouts (pu (ex_data (- 1) 0 (ex_stats 15 8) (ex_stats 10 5))))"
    by (simp add: ex_data_def ex_stats_def)
  from tree_node_merge_skips_iff_src_untouched[OF eqs, of ex_UV ex_UV False
      "[ex_dest_child]" "[ex_src_child]"] touched
  have "\<forall>r. tree_node_merge ex_UV ex_UV False ex_dest_node ex_src_node = Inr r \<longrightarrow>
      hints (data r) = hints (ex_data (- 1) 0 (ex_stats 10 5) (ex_stats 10 5)) OR
                       hints (ex_data (- 1) 0 (ex_stats 15 8) (ex_stats 10 5)) \<and>
      merge_children ex_UV ex_UV False [ex_dest_child] [ex_src_child] = Inr (children r) \<and>
      playouts (u (data r)) = playouts (u (ex_data (- 1) 0 (ex_stats 10 5) (ex_stats 10 5))) +
                              playouts (u (ex_data (- 1) 0 (ex_stats 15 8) (ex_stats 10 5))) \<and>
      wins (u (data r)) = wins (u (ex_data (- 1) 0 (ex_stats 10 5) (ex_stats 10 5))) +
                          wins (u (ex_data (- 1) 0 (ex_stats 15 8) (ex_stats 10 5)))"
    unfolding ex_dest_node_def ex_src_node_def by presburger
  with ex_merge_value show ?thesis
    by (simp add: ex_dest_node_def ex_src_node_def ex_data_def ex_stats_def)
qed

text \<open>
  C7 as stated fails in the direction from skipped to "neither side has
  accumulated playouts": the destination has two playouts beyond its baseline,
  the source has none, and the pair is skipped; the hint and the child of the
  source are not taken over.
\<close>

theorem tree_node_merge_skip_counterexample:
  "playouts (pu (data ex_busy_dest)) = playouts (pu (data ex_idle_src)) \<and>
   playouts (pamaf (data ex_busy_dest)) = playouts (pamaf (data ex_idle_src)) \<and>
   playouts (u (data ex_busy_dest)) - playouts (pu (data ex_busy_dest)) = 2 \<and>
   hints (data ex_busy_dest) OR hints (data ex_idle_src) = 1 \<and>
   children ex_idle_src = [ex_src_child] \<and>
   tree_node_merge ex_UV ex_UV False ex_busy_dest ex_idle_src = Inr ex_busy_dest \<and>
   hints (data ex_busy_dest) = 0 \<and> children ex_busy_dest = []"
  by (simp add: ex_busy_dest_def ex_idle_src_def ex_data_def ex_stats_def src_untouched_def)

lemma normalize_data_spec: "normalize_data factor n = spec_normalized factor n"
  by (simp add: normalize_data_def spec_normalized_def spec_normalized_stats_def Let_def)

lemma tree_node_normalize_map:
  fixes node :: "'v tree_node" and cs :: "'v tree_node list"
  shows "factor \<noteq> 0 \<Longrightarrow>
   tree_node_normalize factor node = Inr (map_nodes (spec_normalized factor) node)"
  and "factor \<noteq> 0 \<Longrightarrow>
   normalize_siblings factor cs = Inr (map (map_nodes (spec_normalized factor)) cs)"
  by (induction factor node and factor cs rule: tree_node_normalize_normalize_siblings.induct)
     (simp_all add: normalize_data_spec)

text \<open>
  C3. For a factor other than zero \<open>tree_normalize\<close> returns the tree in which
  every node, in both channels, has each statistic at baseline + (current -
  baseline) / factor (the quotient of C, truncated towards zero) and the baseline
  equal to the new record; the shape of the tree and the other fields are kept.
\<close>

theorem tree_normalize_every_node:
  assumes "factor \<noteq> 0"
  shows "tree_normalize t factor = Inr (t\<lparr>root := map_nodes (spec_normalized factor) (root t)\<rparr>)"
  using assms by (simp add: tree_normalize_def tree_node_normalize_map)

theorem tree_normalize_every_node_witness:
  "(2::int) \<noteq> 0 \<and>
   tree_normalize (ex_tree ex_src_node) 2 =
     Inr (ex_tree (Node (ex_data (- 1) 0 (ex_stats 12 6) (ex_stats 12 6))
                     [Node (ex_data 6 0 (ex_stats 5 2) (ex_stats 5 2)) []]))"
proof -
  have "tree_normalize (ex_tree ex_src_node) 2 =
      Inr ((ex_tree ex_src_node)\<lparr>root := map_nodes (spec_normalized 2) (root (ex_tree ex_src_node))\<rparr>)"
    by (rule tree_normalize_every_node) simp
  then show ?thesis
    by (simp add: ex_defs spec_normalized_def spec_normalized_stats_def c_div_def)
qed

lemma map_nodes_coord_id: "map_nodes (\<lambda>n. n) node = node"
  by (induction node) (simp add: map_idI)

lemma tree_fix_node_symmetry_map:
  "tree_fix_node_symmetry b fh fv fd node =
     map_nodes (\<lambda>n. n\<lparr>coord := (if is_pass b (coord n) then coord n
                                  else flip_coord b (coord n) fh fv fd)\<rparr>) node"
  by (induction node) simp

lemma tree_fix_symmetry_map:
  "tree_fix_symmetry t b c = t\<lparr>root := map_nodes (\<lambda>n. n\<lparr>coord := fix_coord t b c (coord n)\<rparr>) (root t)\<rparr>"
proof (cases "is_pass b c")
  case True
  then show ?thesis
    by (simp add: tree_fix_symmetry_def fix_coord_def map_nodes_coord_id)
next
  case False
  obtain fh fv fd where fl: "symmetry_flips (root_symmetry t) b c = (fh, fv, fd)"
    by (cases "symmetry_flips (root_symmetry t) b c") auto
  show ?thesis
  proof (cases "fh \<or> fv \<or> fd")
    case True
    have "(\<lambda>n::'a node_data. n\<lparr>coord := fix_coord t b c (coord n)\<rparr>) =
        (\<lambda>n. n\<lparr>coord := (if is_pass b (coord n) then coord n
                          else flip_coord b (coord n) fh fv fd)\<rparr>)"
      using False fl True by (auto simp: fix_coord_def fun_eq_iff)
    with False fl True show ?thesis
      by (simp add: tree_fix_symmetry_def tree_fix_node_symmetry_map)
  next
    case nf: False
    have "(\<lambda>n::'a node_data. n\<lparr>coord := fix_coord t b c (coord n)\<rparr>) = (\<lambda>n. n)"
      using False fl nf by (auto simp: fix_coord_def fun_eq_iff)
    with False fl nf show ?thesis
      by (simp add: tree_fix_symmetry_def map_nodes_coord_id)
  qed
qed

text \<open>
  C5, as the code has it. When no child of the root has the coordinate \<open>c\<close> after
  the symmetry fix-up, \<open>tree_promote_at\<close> returns false, and the tree it leaves
  is the given tree with the coordinates of the nodes rewritten by the fix-up:
  the board, \<open>max_depth\<close>, \<open>root_color\<close>, \<open>root_symmetry\<close>, the shape of the tree
  and every other field of every node are as before. The coordinates are as
  before too when \<open>c\<close> is pass or needs none of the three flips.
\<close>

theorem tree_promote_at_not_found:
  assumes "\<forall>ni \<in> set (children (root (tree_fix_symmetry t b c))). coord (data ni) \<noteq> c"
  shows "tree_promote_at t b c =
           (False, t\<lparr>root := map_nodes (\<lambda>n. n\<lparr>coord := fix_coord t b c (coord n)\<rparr>) (root t)\<rparr>) \<and>
         (is_pass b c \<or> symmetry_flips (root_symmetry t) b c = (False, False, False) \<longrightarrow>
            tree_promote_at t b c = (False, t))"
proof -
  from assms have nf: "find (\<lambda>ni. coord (data ni) = c)
      (children (root (tree_fix_symmetry t b c))) = None"
    by (simp add: find_None_iff)
  then have "tree_promote_at t b c = (False, tree_fix_symmetry t b c)"
    by (simp add: tree_promote_at_def Let_def)
  moreover have "is_pass b c \<or> symmetry_flips (root_symmetry t) b c = (False, False, False)
      \<Longrightarrow> tree_fix_symmetry t b c = t"
    by (auto simp: tree_fix_symmetry_def)
  ultimately show ?thesis by (simp add: tree_fix_symmetry_map)
qed

lemma ex_promote_fixed:
  "tree_fix_symmetry ex_promote_tree (ex_board 5) 8 =
     ex_tree (Node (ex_data (- 1) 0 (ex_stats 7 3) (ex_stats 0 0))
                [Node (ex_data (- 1) 0 (ex_stats 1 0) (ex_stats 0 0)) [],
                 Node (ex_data 13 0 (ex_stats 4 2) (ex_stats 0 0)) [],
                 Node (ex_data 12 0 (ex_stats 2 1) (ex_stats 0 0)) []])"
  by (simp add: tree_fix_symmetry_def ex_promote_tree_def ex_tree_def ex_board_def is_pass_def
      symmetry_flips_def flip_coord_def ex_data_def Let_def)

theorem tree_promote_at_not_found_witness:
  "find (\<lambda>ni. coord (data ni) = 8)
     (children (root (tree_fix_symmetry ex_promote_tree (ex_board 5) 8))) = None \<and>
   fst (tree_promote_at ex_promote_tree (ex_board 5) 8) = False \<and>
   max_depth (snd (tree_promote_at ex_promote_tree (ex_board 5) 8)) = max_depth ex_promote_tree \<and>
   root_color (snd (tree_promote_at ex_promote_tree (ex_board 5) 8)) = S_WHITE"
proof -
  have h: "\<forall>ni \<in> set (children (root (tree_fix_symmetry ex_promote_tree (ex_board 5) 8))).
      coord (data ni) \<noteq> 8"
    by (simp add: ex_promote_fixed) (simp add: ex_tree_def ex_data_def)
  from tree_promote_at_not_found[OF h] h show ?thesis
    by (simp add: ex_promote_tree_def ex_tree_def find_None_iff)
qed

text \<open>
  C5 as stated fails. The played point 8 is \<open>(3, 1)\<close> on the board of size 5,
  to the right of the playground \<open>1..2\<close>; its mirror image \<open>(1, 1)\<close> is not among
  the children of the root. \<open>tree_promote_at\<close> returns false, and the child at 11,
  \<open>(1, 2)\<close>, is left at 13, \<open>(3, 2)\<close>.
\<close>

theorem tree_promote_at_unchanged_counterexample:
  "find (\<lambda>ni. coord (data ni) = 8)
     (children (root (tree_fix_symmetry ex_promote_tree (ex_board 5) 8))) = None \<and>
   fst (tree_promote_at ex_promote_tree (ex_board 5) 8) = False \<and>
   map (\<lambda>ni. coord (data ni)) (children (root ex_promote_tree)) = [- 1, 11, 12] \<and>
   map (\<lambda>ni. coord (data ni))
     (children (root (snd (tree_promote_at ex_promote_tree (ex_board 5) 8)))) = [- 1, 13, 12] \<and>
   snd (tree_promote_at ex_promote_tree (ex_board 5) 8) \<noteq> ex_promote_tree"
proof -
  have nf: "find (\<lambda>ni. coord (data ni) = 8)
     (children (root (tree_fix_symmetry ex_promote_tree (ex_board 5) 8))) = None"
    by (simp add: ex_promote_fixed) (simp add: ex_tree_def ex_data_def)
  then have pr: "tree_promote_at ex_promote_tree (ex_board 5) 8 =
      (False, tree_fix_symmetry ex_promote_tree (ex_board 5) 8)"
    by (simp add: tree_promote_at_def Let_def)
  have before: "map (\<lambda>ni. coord (data ni)) (children (root ex_promote_tree)) = [- 1, 11, 12]"
    by (simp add: ex_promote_tree_def ex_tree_def ex_data_def)
  have after: "map (\<lambda>ni. coord (data ni))
     (children (root (tree_fix_symmetry ex_promote_tree (ex_board 5) 8))) = [- 1, 13, 12]"
    by (simp add: ex_promote_fixed) (simp add: ex_tree_def ex_data_def)
  from before after have "tree_fix_symmetry ex_promote_tree (ex_board 5) 8 \<noteq> ex_promote_tree"
    by auto
  with nf pr before after show ?thesis by simp
qed

lemma tree_init_node_tboard:
  "tree_init_node t ctr c dep = (n, t1, ctr1) \<Longrightarrow> tboard t1 = tboard t \<and> coord (data n) = c"
  by (auto simp: tree_init_node_def zero_data_def split: if_splits)

lemma set_prior_coord: "coord (data (set_prior UV RV ap pr ni)) = coord (data ni)"
  by (simp add: set_prior_def Let_def tree_update_node_value_def tree_update_node_rvalue_def)

lemma expand_loop_coords:
  "expand_loop UV RV ap mp consider b node t ctr ps = Inr (njs, t2, ctr2) \<Longrightarrow>
   map (\<lambda>n. coord (data n)) njs =
     map (\<lambda>(i, j). coord_xy_otf (tboard t) i j)
       (filter (\<lambda>(i, j). \<not> diag_dropped b i j \<and> consider (coord_xy_otf (tboard t) i j)) ps)"
proof (induction ps arbitrary: t ctr njs t2 ctr2)
  case Nil
  then show ?case by simp
next
  case (Cons p ps)
  obtain i j where p: "p = (i, j)" by (cases p)
  show ?case
  proof (cases "diag_dropped b i j \<or> \<not> consider (coord_xy_otf (tboard t) i j)")
    case True
    with Cons.prems p have "expand_loop UV RV ap mp consider b node t ctr ps = Inr (njs, t2, ctr2)"
      by (auto simp: Let_def split: if_splits)
    from Cons.IH[OF this] True p show ?thesis by auto
  next
    case False
    obtain nj t1 ctr1 where ini:
      "tree_init_node t ctr (coord_xy_otf (tboard t) i j) (depth node + 1) = (nj, t1, ctr1)"
      by (cases "tree_init_node t ctr (coord_xy_otf (tboard t) i j) (depth node + 1)") auto
    from Cons.prems p False ini obtain njs' where
      rec: "expand_loop UV RV ap mp consider b node t1 ctr1 ps = Inr (njs', t2, ctr2)"
      and njs: "njs = set_prior UV RV ap (mp (coord_xy_otf (tboard t) i j)) nj # njs'"
      by (auto simp: Let_def split: if_splits sum.splits)
    from tree_init_node_tboard[OF ini] have tb: "tboard t1 = tboard t"
      and cj: "coord (data nj) = coord_xy_otf (tboard t) i j" by simp_all
    from Cons.IH[OF rec] tb cj njs False p show ?thesis
      by (simp add: set_prior_coord)
  qed
qed

lemma raster_sorted_row:
  "sorted_wrt raster_less (map (\<lambda>j. (i, j)) [lo..hi])"
proof -
  have "sorted_wrt (<) [lo..hi]"
    using strict_sorted_iff sorted_upto distinct_upto by blast
  then show ?thesis
    by (simp add: sorted_wrt_map raster_less_def)
qed

lemma raster_sorted_rows:
  "sorted_wrt (<) is \<Longrightarrow>
   sorted_wrt raster_less (concat (map (\<lambda>i. map (\<lambda>j. (i, j)) [lo..hi]) is))"
proof (induction "is")
  case Nil
  then show ?case by simp
next
  case (Cons i "is")
  have row: "sorted_wrt raster_less (map (\<lambda>j. (i, j)) [lo..hi])"
    by (rule raster_sorted_row)
  have rest: "sorted_wrt raster_less (concat (map (\<lambda>i. map (\<lambda>j. (i, j)) [lo..hi]) is))"
    using Cons by simp
  have cross: "\<forall>p \<in> set (map (\<lambda>j. (i, j)) [lo..hi]).
      \<forall>q \<in> set (concat (map (\<lambda>i. map (\<lambda>j. (i, j)) [lo..hi]) is)). raster_less p q"
    using Cons.prems by (auto simp: raster_less_def)
  from row rest cross show ?case
    by (simp add: sorted_wrt_append)
qed

lemma playground_sorted: "sorted_wrt raster_less (playground s)"
proof -
  have "sorted_wrt (<) [sym_x1 s..sym_x2 s]"
    using strict_sorted_iff sorted_upto distinct_upto by blast
  then show ?thesis unfolding playground_def by (rule raster_sorted_rows)
qed

lemma sorted_wrt_filter_map_mono:
  assumes "sorted_wrt R xs" and "\<And>p q. p \<in> set xs \<Longrightarrow> q \<in> set xs \<Longrightarrow> R p q \<Longrightarrow> f p < (f q :: int)"
  shows "sorted_wrt (<) (map f (filter P xs))"
  using assms by (induction xs) (auto simp: sorted_wrt_map)

text \<open>
  C6, as the code has it. When \<open>tree_expand_node\<close> returns, the new sibling list
  is the pass child followed by the coordinates of the raster sequence of the
  board that the call considers, in the order of that sequence (\<open>i\<close>, the x
  coordinate, in the outer loop), whatever the node had before. The list is
  increasing in the coordinate if \<open>pass\<close> is below the coordinates of the
  playground and \<open>coord_xy_otf\<close> grows along the order of the loops on the
  playground.
\<close>

theorem tree_expand_node_raster_order:
  assumes "tree_expand_node UV RV ap mp t ctr node b color radar = Inr (node', t', ctr')"
  shows "child_coords node' =
           pass b # filter (map_consider b color radar) (raster_coords (tboard t) b) \<and>
         ((\<forall>p \<in> set (playground (symmetry b)). pass b < coord_xy_otf (tboard t) (fst p) (snd p)) \<and>
          (\<forall>p \<in> set (playground (symmetry b)). \<forall>q \<in> set (playground (symmetry b)).
             raster_less p q \<longrightarrow>
             coord_xy_otf (tboard t) (fst p) (snd p) < coord_xy_otf (tboard t) (fst q) (snd q))
          \<longrightarrow> sorted_wrt (<) (child_coords node'))"
proof -
  obtain ni t1 ctr1 where ini:
    "tree_init_node t ctr (pass b) (depth (data node) + 1) = (ni, t1, ctr1)"
    by (cases "tree_init_node t ctr (pass b) (depth (data node) + 1)") auto
  from assms ini obtain njs where
    loop: "expand_loop UV RV ap mp (map_consider b color radar) b (data node) t1 ctr1
             (playground (symmetry b)) = Inr (njs, t', ctr')"
    and node': "node' = Node (data node) (set_prior UV RV ap (mp (pass b)) ni # njs)"
    by (auto simp: tree_expand_node_def split: sum.splits)
  from tree_init_node_tboard[OF ini] have tb: "tboard t1 = tboard t"
    and cp: "coord (data ni) = pass b" by simp_all
  define kept where "kept = filter (\<lambda>(i, j). \<not> diag_dropped b i j \<and>
      map_consider b color radar (coord_xy_otf (tboard t) i j)) (playground (symmetry b))"
  have flt: "filter (map_consider b color radar) (raster_coords (tboard t) b) =
      map (\<lambda>(i, j). coord_xy_otf (tboard t) i j) kept"
    unfolding raster_coords_def kept_def filter_map filter_filter
    by (rule arg_cong[where f = "map (\<lambda>(i, j). coord_xy_otf (tboard t) i j)"])
       (rule filter_cong, auto)
  have coords: "child_coords node' =
      pass b # filter (map_consider b color radar) (raster_coords (tboard t) b)"
    using expand_loop_coords[OF loop] node' tb cp
    by (simp add: set_prior_coord child_coords_def flt kept_def)
  have "sorted_wrt (<) (pass b # map (\<lambda>(i, j). coord_xy_otf (tboard t) i j) kept)"
    if lo: "\<forall>p \<in> set (playground (symmetry b)). pass b < coord_xy_otf (tboard t) (fst p) (snd p)"
    and mono: "\<forall>p \<in> set (playground (symmetry b)). \<forall>q \<in> set (playground (symmetry b)).
             raster_less p q \<longrightarrow>
             coord_xy_otf (tboard t) (fst p) (snd p) < coord_xy_otf (tboard t) (fst q) (snd q)"
  proof -
    have "sorted_wrt (<) (map (\<lambda>p. coord_xy_otf (tboard t) (fst p) (snd p)) kept)"
      unfolding kept_def
      by (rule sorted_wrt_filter_map_mono[OF playground_sorted]) (use mono in blast)
    moreover have "(\<lambda>p. coord_xy_otf (tboard t) (fst p) (snd p)) =
        (\<lambda>(i, j). coord_xy_otf (tboard t) i j)"
      by (simp add: fun_eq_iff)
    ultimately have "sorted_wrt (<) (map (\<lambda>(i, j). coord_xy_otf (tboard t) i j) kept)"
      by simp
    moreover have "\<forall>c \<in> set (map (\<lambda>(i, j). coord_xy_otf (tboard t) i j) kept). pass b < c"
      using lo by (auto simp: kept_def)
    ultimately show ?thesis by simp
  qed
  with coords flt show ?thesis by simp
qed

lemma ex_playground:
  "playground (symmetry (ex_board 5)) =
     [(1, 1), (1, 2), (1, 3), (2, 1), (2, 2), (2, 3), (3, 1), (3, 2), (3, 3)]"
  "playground (symmetry (ex_column_board 5)) =
     [(1, 1), (1, 2), (1, 3), (2, 1), (2, 2), (2, 3), (3, 1), (3, 2), (3, 3)]"
  by (simp_all add: playground_def ex_board_def ex_column_board_def upto.simps)

lemmas expand_eval = tree_init_node_def diag_dropped_def map_consider_def ex_board_def
  ex_column_board_def ex_column_tree_def ex_tree_def ex_leaf_def ex_data_def ex_stats_def
  ex_prior_def set_prior_def zero_data_def zero_stats_def Let_def child_coords_def

lemma ex_expand_column:
  "\<exists>node' t' ctr'.
     tree_expand_node ex_UV ex_UV False ex_prior ex_column_tree 1000000 ex_leaf
       (ex_column_board 5) S_BLACK 0 = Inr (node', t', ctr') \<and>
     child_coords node' = [- 1, 6, 7, 8, 11, 12, 13, 16, 17, 18]"
  by (simp add: tree_expand_node_def ex_playground) (simp add: expand_eval)

lemma ex_expand_row:
  "\<exists>node' t' ctr'.
     tree_expand_node ex_UV ex_UV False ex_prior (ex_tree ex_leaf) 1000000 ex_leaf
       (ex_board 5) S_BLACK 0 = Inr (node', t', ctr') \<and>
     child_coords node' = [- 1, 6, 11, 16, 7, 12, 17, 8, 13, 18]"
  by (simp add: tree_expand_node_def ex_playground) (simp add: expand_eval)

theorem tree_expand_node_raster_order_witness:
  "\<exists>node' t' ctr'.
     tree_expand_node ex_UV ex_UV False ex_prior ex_column_tree 1000000 ex_leaf
       (ex_column_board 5) S_BLACK 0 = Inr (node', t', ctr') \<and>
     child_coords node' = [- 1, 6, 7, 8, 11, 12, 13, 16, 17, 18] \<and>
     child_coords node' =
       pass (ex_column_board 5) #
       filter (map_consider (ex_column_board 5) S_BLACK 0)
         (raster_coords (tboard ex_column_tree) (ex_column_board 5)) \<and>
     sorted_wrt (<) (child_coords node')"
proof -
  from ex_expand_column obtain node' t' ctr' where
    ex: "tree_expand_node ex_UV ex_UV False ex_prior ex_column_tree 1000000 ex_leaf
       (ex_column_board 5) S_BLACK 0 = Inr (node', t', ctr')"
    and cs: "child_coords node' = [- 1, 6, 7, 8, 11, 12, 13, 16, 17, 18]" by blast
  have lo: "\<forall>p \<in> set (playground (symmetry (ex_column_board 5))).
      pass (ex_column_board 5) < coord_xy_otf (tboard ex_column_tree) (fst p) (snd p)"
    by (simp add: ex_playground) (simp add: ex_column_board_def ex_column_tree_def ex_board_def)
  have mono: "\<forall>p \<in> set (playground (symmetry (ex_column_board 5))).
      \<forall>q \<in> set (playground (symmetry (ex_column_board 5))). raster_less p q \<longrightarrow>
        coord_xy_otf (tboard ex_column_tree) (fst p) (snd p) <
        coord_xy_otf (tboard ex_column_tree) (fst q) (snd q)"
    by (simp add: ex_playground)
       (simp add: ex_column_board_def ex_column_tree_def ex_board_def raster_less_def)
  from tree_expand_node_raster_order[OF ex] lo mono
  have "child_coords node' =
          pass (ex_column_board 5) #
          filter (map_consider (ex_column_board 5) S_BLACK 0)
            (raster_coords (tboard ex_column_tree) (ex_column_board 5))"
    and "sorted_wrt (<) (child_coords node')"
    by blast+
  with ex cs show ?thesis
    by (intro exI[of _ node'] exI[of _ t'] exI[of _ ctr']) simp
qed

text \<open>
  C6 as stated fails for the coordinates \<open>x + y * board_size\<close>. On the board
  of three by three points (size 5 with its border) the expansion of the empty
  position gives the children pass, 6, 11, 16, 7, ...: the loops go down the
  column \<open>x = 1\<close> first, and the point \<open>(1, 2)\<close> at 11 stands before \<open>(2, 1)\<close>
  at 7.
\<close>

theorem tree_expand_node_sorted_counterexample:
  "map_sum id (\<lambda>(node', t', ctr'). child_coords node')
     (tree_expand_node ex_UV ex_UV False ex_prior (ex_tree ex_leaf) 1000000 ex_leaf
        (ex_board 5) S_BLACK 0) = Inr [- 1, 6, 11, 16, 7, 12, 17, 8, 13, 18] \<and>
   map_sum id (\<lambda>(node', t', ctr'). sorted (child_coords node'))
     (tree_expand_node ex_UV ex_UV False ex_prior (ex_tree ex_leaf) 1000000 ex_leaf
        (ex_board 5) S_BLACK 0) = Inr False"
proof -
  from ex_expand_row obtain node' t' ctr' where
    "tree_expand_node ex_UV ex_UV False ex_prior (ex_tree ex_leaf) 1000000 ex_leaf
       (ex_board 5) S_BLACK 0 = Inr (node', t', ctr')"
    and "child_coords node' = [- 1, 6, 11, 16, 7, 12, 17, 8, 13, 18]" by blast
  then show ?thesis by simp
qed

lemma add_move_counters:
  "played (add_move F b st m) = played st"
  "total_playouts (add_move F b st m) = total_playouts st"
  "total_threads (add_move F b st m) = total_threads st"
  "keep (add_move F b st m) = keep st"
  by (simp_all add: add_move_def Let_def split: prod.splits)

lemma foldl_add_move_counters:
  "played (foldl (add_move F b) st ms) = played st"
  "total_playouts (foldl (add_move F b) st ms) = total_playouts st"
  "total_threads (foldl (add_move F b) st ms) = total_threads st"
  "keep (foldl (add_move F b) st ms) = keep st"
  by (induction ms arbitrary: st) (simp_all add: add_move_counters)

lemma add_reply_counters:
  "played (add_reply F b st r) =
     played st + (case sscanf_header r of Some (gid, own, p, t, k) \<Rightarrow> own | None \<Rightarrow> 0)"
  "total_playouts (add_reply F b st r) =
     total_playouts st + (case sscanf_header r of Some (gid, own, p, t, k) \<Rightarrow> p | None \<Rightarrow> 0)"
  "total_threads (add_reply F b st r) =
     total_threads st + (case sscanf_header r of Some (gid, own, p, t, k) \<Rightarrow> t | None \<Rightarrow> 0)"
  "keep (add_reply F b st r) =
     keep st + (case sscanf_header r of Some (gid, own, p, t, k) \<Rightarrow> k | None \<Rightarrow> 0)"
  by (simp_all add: add_reply_def foldl_add_move_counters split: option.splits)

lemma foldl_add_reply_counters:
  "played (foldl (add_reply F b) st rs) = played st + header_sum (\<lambda>(gid, own, p, t, k). own) rs"
  "total_playouts (foldl (add_reply F b) st rs) =
     total_playouts st + header_sum (\<lambda>(gid, own, p, t, k). p) rs"
  "total_threads (foldl (add_reply F b) st rs) =
     total_threads st + header_sum (\<lambda>(gid, own, p, t, k). t) rs"
  "keep (foldl (add_reply F b) st rs) = keep st + header_sum (\<lambda>(gid, own, p, t, k). k) rs"
  by (induction rs arbitrary: st) (simp_all add: add_reply_counters header_sum_def)

lemma header_sum_votes:
  assumes "\<forall>r \<in> set rs. \<forall>gid own p t k.
             sscanf_header r = Some (gid, own, p, t, k) \<longrightarrow> k = 0 \<or> k = 1"
  shows "header_sum (\<lambda>(gid, own, p, t, k). k) rs = int (continue_votes rs)"
  using assms
proof (induction rs)
  case Nil
  then show ?case by (simp add: header_sum_def continue_votes_def)
next
  case (Cons r rs)
  then have ih: "header_sum (\<lambda>(gid, own, p, t, k). k) rs = int (continue_votes rs)"
    by simp
  show ?case
  proof (cases "sscanf_header r")
    case None
    with ih show ?thesis by (simp add: header_sum_def continue_votes_def)
  next
    case (Some h)
    obtain gid own p t k where h: "h = (gid, own, p, t, k)" by (cases h)
    with Some Cons.prems have "k = 0 \<or> k = 1" by simp
    with ih Some h show ?thesis by (auto simp: header_sum_def continue_votes_def)
  qed
qed

text \<open>
  C8, as the code has it. \<open>keep_looking\<close> is true if and only if the sum of
  the votes of the headers that convert is more than half the number of
  collected replies, that is, twice the sum exceeds that number. When every
  vote is 0 or 1 the sum is the number of replies that vote to continue, and
  \<open>keep_looking\<close> is true if and only if these are a strict majority of all
  collected replies; at exactly half it is false. A reply without a header
  counts among the collected replies and not among the votes.
\<close>

theorem select_best_move_keep_looking_vote_sum:
  assumes "select_best_move F b rs = Inr sel"
  shows "(sel_keep_looking sel \<longleftrightarrow>
            2 * header_sum (\<lambda>(gid, own, p, t, k). k) rs > int (length rs)) \<and>
         ((\<forall>r \<in> set rs. \<forall>gid own p t k.
             sscanf_header r = Some (gid, own, p, t, k) \<longrightarrow> k = 0 \<or> k = 1) \<longrightarrow>
          (sel_keep_looking sel \<longleftrightarrow> 2 * continue_votes rs > length rs) \<and>
          (2 * continue_votes rs = length rs \<longrightarrow> \<not> sel_keep_looking sel))"
proof -
  from assms have kl: "sel_keep_looking sel =
      (header_sum (\<lambda>(gid, own, p, t, k). k) rs > int (length rs) div 2)"
    by (auto simp: select_best_move_def Let_def foldl_add_reply_counters split: if_splits)
  have half: "(v > int n div 2) = (2 * v > int n)" for v :: int and n :: nat
    by presburger
  have first: "sel_keep_looking sel \<longleftrightarrow>
      2 * header_sum (\<lambda>(gid, own, p, t, k). k) rs > int (length rs)"
    using kl half by simp
  have second: "(sel_keep_looking sel \<longleftrightarrow> 2 * continue_votes rs > length rs) \<and>
      (2 * continue_votes rs = length rs \<longrightarrow> \<not> sel_keep_looking sel)"
    if "\<forall>r \<in> set rs. \<forall>gid own p t k.
          sscanf_header r = Some (gid, own, p, t, k) \<longrightarrow> k = 0 \<or> k = 1"
  proof -
    from header_sum_votes[OF that] first
    have "sel_keep_looking sel \<longleftrightarrow> 2 * int (continue_votes rs) > int (length rs)"
      by simp
    then show ?thesis by auto
  qed
  from first second show ?thesis by blast
qed




lemma ex_headers:
  "sscanf_header ex_reply = Some (7, 100, 500, 4, 1)"
  "sscanf_header ex_reply_stop = Some (7, 10, 20, 1, 0)"
  "sscanf_header ex_reply_go = Some (7, 5, 7, 2, 1)"
  by (simp_all add: sscanf_header_def scan_d_def ex_reply_def ex_reply_stop_def ex_reply_go_def
      isspace_def isdigit_def digits_value_def Let_def)

































lemma ex_select_two:
  "\<exists>sel. select_best_move ex_float_ops (ex_board 11) [ex_reply, ex_reply_stop] = Inr sel"
  by (simp add: select_best_move_def Let_def)

lemma select_best_move_keep_value:
  "rs \<noteq> [] \<Longrightarrow>
   map_sum id sel_keep_looking (select_best_move F b rs) =
     Inr (header_sum (\<lambda>(gid, own, p, t, k). k) rs > int (length rs) div 2)"
  by (simp add: select_best_move_def Let_def foldl_add_reply_counters)

lemma ex_vote_headers:
  "sscanf_header ex_reply_vote2 = Some (7, 5, 7, 2, 2)"
  "sscanf_header ex_reply_minus = Some (7, 5, 7, 2, - 1)"
  by (simp_all add: sscanf_header_def scan_d_def ex_reply_vote2_def ex_reply_minus_def
      isspace_def isdigit_def digits_value_def Let_def)

theorem select_best_move_keep_looking_vote_sum_witness:
  "\<exists>sel. select_best_move ex_float_ops (ex_board 11) [ex_reply, ex_reply_stop] = Inr sel \<and>
     header_sum (\<lambda>(gid, own, p, t, k). k) [ex_reply, ex_reply_stop] = 1 \<and>
     sscanf_header ex_reply = Some (7, 100, 500, 4, 1) \<and>
     sscanf_header ex_reply_stop = Some (7, 10, 20, 1, 0) \<and>
     continue_votes [ex_reply, ex_reply_stop] = 1 \<and>
     length [ex_reply, ex_reply_stop] = 2 \<and>
     \<not> sel_keep_looking sel"
proof -
  from ex_select_two obtain sel where
    sel: "select_best_move ex_float_ops (ex_board 11) [ex_reply, ex_reply_stop] = Inr sel"
    by blast
  have votes01: "\<forall>r \<in> set [ex_reply, ex_reply_stop]. \<forall>gid own p t k.
      sscanf_header r = Some (gid, own, p, t, k) \<longrightarrow> k = 0 \<or> k = 1"
    by (simp add: ex_headers)
  have cv: "continue_votes [ex_reply, ex_reply_stop] = 1"
    by (simp add: continue_votes_def ex_headers)
  have hs: "header_sum (\<lambda>(gid, own, p, t, k). k) [ex_reply, ex_reply_stop] = 1"
    by (simp add: header_sum_def ex_headers)
  from select_best_move_keep_looking_vote_sum[OF sel] votes01 cv
  have "\<not> sel_keep_looking sel" by auto
  with sel cv hs show ?thesis by (auto simp: ex_headers)
qed

text \<open>
  C8 as stated fails in both directions when a vote is not 0 or 1. Of the three
  replies with the votes 2, 0 and 0 none has the vote 1 and only one has a vote
  other than 0, and \<open>keep_looking\<close> is true, since the sum 2 is more than
  3 / 2 = 1. Of the three replies with the votes 1, 1 and -1 two have the vote 1
  and none has the vote 0, and \<open>keep_looking\<close> is false, since the sum 1 is not
  more than 1.
\<close>

theorem select_best_move_majority_counterexample:
  "sscanf_header ex_reply_vote2 = Some (7, 5, 7, 2, 2) \<and>
   sscanf_header ex_reply_stop = Some (7, 10, 20, 1, 0) \<and>
   continue_votes [ex_reply_vote2, ex_reply_stop, ex_reply_stop] = 0 \<and>
   length [ex_reply_vote2, ex_reply_stop, ex_reply_stop] = 3 \<and>
   map_sum id sel_keep_looking
     (select_best_move ex_float_ops (ex_board 11) [ex_reply_vote2, ex_reply_stop, ex_reply_stop]) =
     Inr True \<and>
   sscanf_header ex_reply_go = Some (7, 5, 7, 2, 1) \<and>
   sscanf_header ex_reply_minus = Some (7, 5, 7, 2, - 1) \<and>
   continue_votes [ex_reply_go, ex_reply_go, ex_reply_minus] = 2 \<and>
   length [ex_reply_go, ex_reply_go, ex_reply_minus] = 3 \<and>
   map_sum id sel_keep_looking
     (select_best_move ex_float_ops (ex_board 11) [ex_reply_go, ex_reply_go, ex_reply_minus]) =
     Inr False"
  by (simp add: select_best_move_keep_value header_sum_def continue_votes_def
      ex_headers ex_vote_headers)


lemma tree_node_save_shape:
  "\<exists>its. tree_node_save thres node = Byte 1 # Block (data node) # its @ [Byte 0]"
  by (cases node) simp

lemma load_save_siblings:
  fixes cs :: "('v::zero) tree_node list"
  assumes nodes: "\<And>c k d0 num rest. c \<in> set cs \<Longrightarrow> length (tree_node_save thres c) \<le> Suc k \<Longrightarrow>
      \<exists>num'. tree_node_load k rnd (Node d0 []) num (tl (tree_node_save thres c) @ rest) =
        Some (Inr (as_loaded rnd (hash d0) (serialized thres c), num', rest))"
  shows "length (concat (map (tree_node_save thres) cs)) < k \<Longrightarrow>
      \<exists>num'. load_siblings k rnd [] acc num
          (concat (map (tree_node_save thres) cs) @ Byte 0 # rest) =
        Some (Inr (acc @ map (\<lambda>c. as_loaded rnd 0 (serialized thres c)) cs, num', rest))"
  using nodes
proof (induction cs arbitrary: k acc num)
  case Nil
  then obtain k' where "k = Suc k'" by (cases k) auto
  then show ?case by simp
next
  case (Cons c cs)
  from Cons.prems(1) obtain k' where k: "k = Suc k'" by (cases k) auto
  define R where "R = concat (map (tree_node_save thres) cs) @ Byte 0 # rest"
  obtain its where sv: "tree_node_save thres c = Byte 1 # Block (data c) # its @ [Byte 0]"
    using tree_node_save_shape by blast
  have len_c: "length (tree_node_save thres c) \<le> Suc k'"
    using Cons.prems(1) k by simp
  have "c \<in> set (c # cs)" by simp
  from Cons.prems(2)[OF this len_c, of "zero_data" num R] obtain num1 where
    ld: "tree_node_load k' rnd (Node zero_data []) num (tl (tree_node_save thres c) @ R) =
         Some (Inr (as_loaded rnd 0 (serialized thres c), num1, R))"
    by (auto simp: zero_data_def)
  have len_cs: "length (concat (map (tree_node_save thres) cs)) < k'"
    using Cons.prems(1) k sv by simp
  have "\<exists>num'. load_siblings k' rnd [] (acc @ [as_loaded rnd 0 (serialized thres c)]) num1
          (concat (map (tree_node_save thres) cs) @ Byte 0 # rest) =
        Some (Inr ((acc @ [as_loaded rnd 0 (serialized thres c)]) @
                     map (\<lambda>c. as_loaded rnd 0 (serialized thres c)) cs, num', rest))"
    by (rule Cons.IH[OF len_cs]) (use Cons.prems(2) in auto)
  then obtain num2 where
    rec: "load_siblings k' rnd [] (acc @ [as_loaded rnd 0 (serialized thres c)]) num1 R =
        Some (Inr (acc @ map (\<lambda>c. as_loaded rnd 0 (serialized thres c)) (c # cs), num2, rest))"
    unfolding R_def by auto
  have items: "concat (map (tree_node_save thres) (c # cs)) @ Byte 0 # rest =
      Byte 1 # (tl (tree_node_save thres c) @ R)"
    unfolding R_def using sv by simp
  show ?case unfolding items k using ld rec by auto
qed

lemma load_save_node:
  fixes node :: "('v::zero) tree_node"
  shows "length (tree_node_save thres node) \<le> Suc k \<Longrightarrow>
      \<exists>num'. tree_node_load k rnd (Node d0 []) num (tl (tree_node_save thres node) @ rest) =
        Some (Inr (as_loaded rnd (hash d0) (serialized thres node), num', rest))"
proof (induction node arbitrary: k d0 num rest)
  case (Node n cs)
  define X where "X = (if playouts (u n) \<ge> thres then cs else [])"
  have sv: "tree_node_save thres (Node n cs) =
      Byte 1 # Block n # concat (map (tree_node_save thres) X) @ [Byte 0]"
    by (simp add: X_def)
  have ser: "serialized thres (Node n cs) = Node n (map (serialized thres) X)"
    by (simp add: X_def)
  from Node.prems sv obtain k' where k: "k = Suc k'"
    and len: "length (concat (map (tree_node_save thres) X)) < k'"
    by (cases k) auto
  have sub: "set X \<subseteq> set cs" by (auto simp: X_def)
  have "\<exists>num'. load_siblings k' rnd [] [] (num + 1)
          (concat (map (tree_node_save thres) X) @ Byte 0 # rest) =
        Some (Inr ([] @ map (\<lambda>c. as_loaded rnd 0 (serialized thres c)) X, num', rest))"
    by (rule load_save_siblings[OF _ len]) (use Node.IH sub in blast)
  then obtain num1 where
    sib: "load_siblings k' rnd [] [] (num + 1)
          (concat (map (tree_node_save thres) X) @ Byte 0 # rest) =
        Some (Inr (map (\<lambda>c. as_loaded rnd 0 (serialized thres c)) X, num1, rest))"
    by auto
  show ?case unfolding sv ser k using sib by (simp add: comp_def)
qed

lemma load_fix_under_ceiling:
  assumes "playouts (u n) \<le> MAX_PLAYOUTS" and "playouts (amaf n) \<le> MAX_PLAYOUTS"
  shows "load_fix rnd n = n\<lparr>pamaf := amaf n, pu := u n\<rparr>"
  using assms by (simp add: load_fix_def clamp_stats_def Let_def)

lemma load_fix_fields:
  "coord (load_fix rnd n) = coord n" "depth (load_fix rnd n) = depth n"
  "hints (load_fix rnd n) = hints n" "prior (load_fix rnd n) = prior n"
  "hash (load_fix rnd n) = hash n"
  "u (load_fix rnd n) = clamp_stats rnd (u n)" "amaf (load_fix rnd n) = clamp_stats rnd (amaf n)"
  "pu (load_fix rnd n) = clamp_stats rnd (u n)" "pamaf (load_fix rnd n) = clamp_stats rnd (amaf n)"
  by (simp_all add: load_fix_def Let_def)

text \<open>
  C4, as the code has it. Loading the book that \<open>tree_save\<close> wrote with the
  threshold \<open>thres\<close> into a tree whose root has no children succeeds, and the
  root becomes the serialized part of the saved tree with every node passed
  through \<open>load_fix\<close>. For every node, the coordinate, the depth, the hints and
  the prior are those saved, and each of the channels u and amaf is the saved one
  when its playouts do not exceed the ceiling; a channel above the ceiling has
  its playouts set to the ceiling, its derived value kept, and its wins replaced
  by the integer part of wins - (wins / playouts) * excess computed in
  \<^verbatim>\<open>double\<close>. The baselines are the loaded channels.
\<close>

theorem tree_save_load_roundtrip:
  assumes "children (root fresh) = []"
  shows "tree_load rnd fresh (Some (tree_save t thres)) =
           Some (Inr (fresh\<lparr>root := as_loaded rnd (hash (data (root fresh)))
                                      (serialized thres (root t))\<rparr>)) \<and>
         (\<forall>n. coord (load_fix rnd n) = coord n \<and> depth (load_fix rnd n) = depth n \<and>
               hints (load_fix rnd n) = hints n \<and> prior (load_fix rnd n) = prior n \<and>
               pu (load_fix rnd n) = u (load_fix rnd n) \<and>
               pamaf (load_fix rnd n) = amaf (load_fix rnd n) \<and>
               u (load_fix rnd n) = clamp_stats rnd (u n) \<and>
               amaf (load_fix rnd n) = clamp_stats rnd (amaf n)) \<and>
         (\<forall>st. playouts st \<le> MAX_PLAYOUTS \<longrightarrow> clamp_stats rnd st = st) \<and>
         (\<forall>st. playouts st > MAX_PLAYOUTS \<longrightarrow>
               playouts (clamp_stats rnd st) = MAX_PLAYOUTS \<and>
               mvalue (clamp_stats rnd st) = mvalue st \<and>
               wins (clamp_stats rnd st) =
                 clamp_wins rnd (wins st) (playouts st) (playouts st - MAX_PLAYOUTS))"
proof -
  obtain d0 where fr: "root fresh = Node d0 []"
    using assms by (cases "root fresh") auto
  obtain its where sv: "tree_node_save thres (root t) = Byte 1 # Block (data (root t)) # its @ [Byte 0]"
    using tree_node_save_shape by blast
  have "length (tree_node_save thres (root t)) \<le> Suc (length (tree_save t thres))"
    by (simp add: tree_save_def)
  from load_save_node[OF this, of rnd d0 0 "[Byte 0]"] obtain num' where
    "tree_node_load (length (tree_save t thres)) rnd (Node d0 []) 0
       (tl (tree_node_save thres (root t)) @ [Byte 0]) =
     Some (Inr (as_loaded rnd (hash d0) (serialized thres (root t)), num', [Byte 0]))"
    by blast
  then have "tree_load rnd fresh (Some (tree_save t thres)) =
           Some (Inr (fresh\<lparr>root := as_loaded rnd (hash (data (root fresh)))
                                      (serialized thres (root t))\<rparr>))"
    using sv fr by (simp add: tree_load_def tree_save_def)
  then show ?thesis
    by (simp add: load_fix_fields clamp_stats_def)
qed


lemma ex_fresh_tree_root: "root ex_fresh_tree = Node (zero_data\<lparr>coord := - 1, depth := 0, hash := 1000000\<rparr>) []"
  by (simp add: ex_fresh_tree_def tree_init_def tree_init_node_def ex_board_def Let_def)

lemma ex_clamp_wins: "clamp_wins (\<lambda>x. x) 1 16777216 (16777216 - MAX_PLAYOUTS) = 0"
  by (simp add: clamp_wins_def c_trunc_def MAX_PLAYOUTS_def floor_eq_iff)

theorem tree_save_load_roundtrip_witness:
  "children (root ex_fresh_tree) = [] \<and>
   map_option (map_sum id (\<lambda>t. (child_coords (root t), map child_coords (children (root t)),
                                  u (data (root t)), pu (data (root t)))))
     (tree_load (\<lambda>x. x) ex_fresh_tree (Some (tree_save ex_book_tree 3))) =
   Some (Inr ([6, 11], [[7], []], ex_stats 7 3, ex_stats 7 3))"
proof -
  have fresh: "children (root ex_fresh_tree) = []"
    by (simp add: ex_fresh_tree_root)
  from tree_save_load_roundtrip[OF fresh, of "\<lambda>x. x" ex_book_tree 3]
  have "tree_load (\<lambda>x. x) ex_fresh_tree (Some (tree_save ex_book_tree 3)) =
      Some (Inr (ex_fresh_tree\<lparr>root := as_loaded (\<lambda>x. x) (hash (data (root ex_fresh_tree)))
                                          (serialized 3 (root ex_book_tree))\<rparr>))"
    by blast
  with fresh show ?thesis
    by (simp add: ex_book_tree_def ex_tree_def ex_data_def ex_stats_def child_coords_def
        load_fix_def clamp_stats_def MAX_PLAYOUTS_def Let_def)
qed

text \<open>
  C4 as stated fails for a channel above the ceiling. The saved root has one win
  in \<open>2 ^ 24\<close> playouts; it is loaded with the \<open>10 ^ 7\<close> playouts of the ceiling
  and no win, since the scaled wins \<open>10 ^ 7 / 2 ^ 24\<close> are cut to an integer:
  the mean was \<open>1 / 2 ^ 24\<close> and is 0.
\<close>

theorem tree_load_mean_counterexample:
  "children (root ex_fresh_tree) = [] \<and>
   playouts (u (data (root ex_big_tree))) = 16777216 \<and> wins (u (data (root ex_big_tree))) = 1 \<and>
   map_option (map_sum id (\<lambda>t. (playouts (u (data (root t))), wins (u (data (root t))))))
     (tree_load (\<lambda>x. x) ex_fresh_tree (Some (tree_save ex_big_tree 0))) =
   Some (Inr (10000000, 0)) \<and>
   (of_int 0 / of_int 10000000 :: rat) \<noteq> of_int 1 / of_int 16777216"
proof -
  have fresh: "root ex_fresh_tree = Node (zero_data\<lparr>coord := - 1, depth := 0, hash := 1000000\<rparr>) []"
    by (rule ex_fresh_tree_root)
  have big: "tree_save ex_big_tree 0 =
      [Byte 1, Block (ex_data (- 1) 0 (ex_stats 16777216 1) (ex_stats 0 0)), Byte 0, Byte 0]"
    by (simp add: tree_save_def ex_big_tree_def ex_tree_def ex_data_def ex_stats_def)
  have "tree_load (\<lambda>x. x) ex_fresh_tree (Some (tree_save ex_big_tree 0)) =
      Some (Inr (ex_fresh_tree\<lparr>root := Node (load_fix (\<lambda>x. x)
         ((ex_data (- 1) 0 (ex_stats 16777216 1) (ex_stats 0 0))\<lparr>hash := 1000000\<rparr>)) []\<rparr>))"
    unfolding big by (simp add: tree_load_def fresh numeral_eq_Suc)
  moreover have "playouts (u (load_fix (\<lambda>x. x)
         ((ex_data (- 1) 0 (ex_stats 16777216 1) (ex_stats 0 0))\<lparr>hash := 1000000\<rparr>))) = 10000000"
    and "wins (u (load_fix (\<lambda>x. x)
         ((ex_data (- 1) 0 (ex_stats 16777216 1) (ex_stats 0 0))\<lparr>hash := 1000000\<rparr>))) = 0"
    using ex_clamp_wins
    by (simp_all add: load_fix_def clamp_stats_def ex_data_def ex_stats_def Let_def MAX_PLAYOUTS_def)
  ultimately show ?thesis
    by (simp add: fresh) (simp add: ex_big_tree_def ex_tree_def ex_data_def ex_stats_def)
qed

lemma ex_scmp:
  "scmp ex_dead_A1 ex_dead_a1 = 0" "scmp ex_dead_a1 ex_dead_A1 = 0"
  "scmp ex_dead_A1 ex_dead_A1 = 0" "scmp ex_dead_a1 ex_dead_a1 = 0"
  "scmp ex_dead_B2 ex_dead_B2 = 0"
  "scmp ex_dead_A1 ex_dead_B2 = - 1" "scmp ex_dead_a1 ex_dead_B2 = - 1"
  by (simp_all add: scmp_def ex_dead_A1_def ex_dead_a1_def ex_dead_B2_def tolower_def)

lemma ex_dead_distinct:
  "ex_dead_A1 \<noteq> ex_dead_a1" "ex_dead_A1 \<noteq> ex_dead_B2" "ex_dead_a1 \<noteq> ex_dead_B2"
  by (simp_all add: ex_dead_A1_def ex_dead_a1_def ex_dead_B2_def)

lemma ex_dead_sorted: "stable_qsort ex_dead_replies = ex_dead_replies"
  by (simp add: stable_qsort_def ex_dead_replies_def ex_scmp)

lemma ex_dead_groups:
  "group_loop (ex_board 11) (strchr ex_dead_A1 CHR 0x20) [] = [100]"
  "group_loop (ex_board 11) (strchr ex_dead_B2 CHR 0x20) [] = [90]"
  by (simp_all add: group_loop.simps mq_add_def strchr_def ex_dead_A1_def ex_dead_B2_def ex_board_def
      ex_str2coord_def tolower_def scan_d_def isspace_def isdigit_def digits_value_def Let_def)

text \<open>
  C9 at these replies. The array is in order for \<open>scmp\<close> as it stands, so a
  \<^verbatim>\<open>qsort\<close> that keeps the order of elements that compare equal leaves it as it
  is. The replies for \<open>A1\<close> and \<open>a1\<close> alternate in it, no two neighbours among
  them are the same text, and the loop finds the run of the two replies for
  \<open>B2\<close> as the longest: the group taken is \<open>B2\<close> (90), although the text that
  occurs most often, three times, is the reply for \<open>A1\<close> (100).
\<close>

theorem dead_group_list_case_variants:
  "qsort_result ex_dead_replies (stable_qsort ex_dead_replies) \<and>
   stable_qsort ex_dead_replies = ex_dead_replies \<and>
   count_list ex_dead_replies ex_dead_A1 = 3 \<and>
   count_list ex_dead_replies ex_dead_a1 = 2 \<and>
   count_list ex_dead_replies ex_dead_B2 = 2 \<and>
   most_popular (stable_qsort ex_dead_replies) = 6 \<and>
   stable_qsort ex_dead_replies ! 6 = ex_dead_B2 \<and>
   distributed_dead_group_list stable_qsort (ex_board 11) ex_dead_replies [] = Inr [90] \<and>
   group_loop (ex_board 11) (strchr ex_dead_A1 CHR 0x20) [] = [100]"
proof -
  have sorted: "sorted_wrt (\<lambda>a b. scmp a b \<le> 0) ex_dead_replies"
    by (simp add: ex_dead_replies_def ex_scmp)
  have counts: "count_list ex_dead_replies ex_dead_A1 = 3"
    "count_list ex_dead_replies ex_dead_a1 = 2" "count_list ex_dead_replies ex_dead_B2 = 2"
    using ex_dead_distinct by (auto simp: ex_dead_replies_def)
  have pop: "most_popular ex_dead_replies = 6"
    using ex_dead_distinct by (auto simp: most_popular_def ex_dead_replies_def Let_def)
  have nth: "ex_dead_replies ! 6 = ex_dead_B2"
    by (simp add: ex_dead_replies_def)
  have nonempty: "ex_dead_replies \<noteq> []"
    by (simp add: ex_dead_replies_def)
  have "distributed_dead_group_list stable_qsort (ex_board 11) ex_dead_replies [] = Inr [90]"
    using nonempty
    by (simp add: distributed_dead_group_list_def ex_dead_sorted pop nth ex_dead_groups Let_def)
  with sorted counts pop nth show ?thesis
    by (simp add: qsort_result_def ex_dead_sorted ex_dead_groups)
qed

end
